theory Spec2Isabelle
  imports Main "HOL-Library.Sublist"
begin

section \<open>The UK number plate generator\<close>

text \<open>
  A shallow embedding of \<^verbatim>\<open>uk_number_plate_generator.py\<close>. Every method of the class
  \<^verbatim>\<open>UKNumberPlateGenerator\<close> is a function that takes the object (a record of its
  attributes) and, where the method reads or writes files or prints, the world (the files
  and the standard output), and returns its result together with what it changed. An
  exception is a value \<open>Inl e\<close> of the result.

  Characters are read as code points below 256. \<open>upper\<close> is Python's \<^verbatim>\<open>str.upper\<close> on
  ASCII strings only (outside ASCII, upper-casing can leave the range and change the
  length); a theorem whose statement depends on the upper-cased tag assumes an ASCII tag.
  The library functions \<^verbatim>\<open>datetime.strptime\<close>, \<^verbatim>\<open>repr\<close>, \<^verbatim>\<open>str\<close> and
  \<^verbatim>\<open>itertools.product\<close> are modelled as CPython defines them; the \<^verbatim>\<open>csv\<close> module is
  modelled by the rows it reads and writes.
\<close>

subsection \<open>Exceptions\<close>

datatype error =
    ValueError string
  | AttributeError string
  | IOError

subsection \<open>Strings and integers\<close>

definition ascii_uppercase :: string where
  "ascii_uppercase = ''ABCDEFGHIJKLMNOPQRSTUVWXYZ''"

definition ascii_lowercase :: string where
  "ascii_lowercase = ''abcdefghijklmnopqrstuvwxyz''"

definition is_ascii :: "string \<Rightarrow> bool" where
  "is_ascii s = list_all (\<lambda>c. (of_char c :: nat) < 128) s"

definition upper_char :: "char \<Rightarrow> char" where
  "upper_char c =
     (case map_of (zip ascii_lowercase ascii_uppercase) c of Some u \<Rightarrow> u | None \<Rightarrow> c)"

definition upper :: "string \<Rightarrow> string" where
  "upper s = map upper_char s"

definition digit_chars :: string where
  "digit_chars = ''0123456789''"

definition squote :: char where
  "squote = CHR 0x27"

definition dquote :: char where
  "dquote = CHR 0x22"

definition backslash :: char where
  "backslash = CHR 0x5C"

text \<open>\<^verbatim>\<open>str(n)\<close> of a natural number: its decimal digits.\<close>

fun str_nat :: "nat \<Rightarrow> string" where
  "str_nat n =
     (if n < 10 then [digit_chars ! n]
      else str_nat (n div 10) @ [digit_chars ! (n mod 10)])"

definition str_int :: "int \<Rightarrow> string" where
  "str_int i = (if i < 0 then CHR ''-'' # str_nat (nat (- i)) else str_nat (nat i))"

text \<open>\<^verbatim>\<open>s[-k:]\<close>: the last \<open>k\<close> characters, the whole string when it is shorter.\<close>

definition last_chars :: "nat \<Rightarrow> string \<Rightarrow> string" where
  "last_chars k s = drop (length s - k) s"

text \<open>
  \<^verbatim>\<open>repr(s)\<close> of a string: double quotes when the string has a single quote and no
  double quote, single quotes otherwise; the quote and the backslash are escaped, control
  and non-printable characters are written as escapes.
\<close>

definition hex_chars :: string where
  "hex_chars = ''0123456789abcdef''"

definition repr_char :: "char \<Rightarrow> char \<Rightarrow> string" where
  "repr_char quote c =
     (let n = (of_char c :: nat) in
      if c = quote \<or> c = backslash then [backslash, c]
      else if n = 9 then [backslash, CHR ''t'']
      else if n = 10 then [backslash, CHR ''n'']
      else if n = 13 then [backslash, CHR ''r'']
      else if n < 32 \<or> (127 \<le> n \<and> n \<le> 160) \<or> n = 173
        then [backslash, CHR ''x'', hex_chars ! (n div 16), hex_chars ! (n mod 16)]
      else [c])"

definition repr :: "string \<Rightarrow> string" where
  "repr s =
     (let quote = (if squote \<in> set s \<and> dquote \<notin> set s then dquote else squote)
      in quote # concat (map (repr_char quote) s) @ [quote])"

subsection \<open>Dates and \<^verbatim>\<open>datetime.strptime(s, "%d/%m/%Y")\<close>\<close>

record datetime =
  year :: int
  month :: int
  day :: int

definition is_leap :: "int \<Rightarrow> bool" where
  "is_leap y = (y mod 4 = 0 \<and> (y mod 100 \<noteq> 0 \<or> y mod 400 = 0))"

definition days_in_month :: "int \<Rightarrow> int \<Rightarrow> int" where
  "days_in_month y m =
     (if m = 2 then (if is_leap y then 29 else 28)
      else if m = 4 \<or> m = 6 \<or> m = 9 \<or> m = 11 then 30 else 31)"

text \<open>The dates the class \<^verbatim>\<open>datetime\<close> can hold.\<close>

definition valid_date :: "datetime \<Rightarrow> bool" where
  "valid_date d =
     (1 \<le> year d \<and> year d \<le> 9999 \<and> 1 \<le> month d \<and> month d \<le> 12 \<and>
      1 \<le> day d \<and> day d \<le> days_in_month (year d) (month d))"

text \<open>
  The library turns the format into the regular expression
  \<^verbatim>\<open>(?P<d>3[0-1]|[1-2]\d|0[1-9]|[1-9]| [1-9])/(?P<m>1[0-2]|0[1-9]|[1-9])/(?P<Y>\d\d\d\d)\<close>
  and matches it at the start of the string. A matcher returns the ways it can match a
  prefix of its input, the matched text with the rest, in the order in which a
  backtracking matcher tries them; the match found is the first of the whole expression.
\<close>

definition one_of :: "string \<Rightarrow> string \<Rightarrow> (string \<times> string) list" where
  "one_of cs s = (case s of [] \<Rightarrow> [] | c # r \<Rightarrow> if c \<in> set cs then [([c], r)] else [])"

definition seq ::
  "(string \<Rightarrow> (string \<times> string) list) \<Rightarrow> (string \<Rightarrow> (string \<times> string) list) \<Rightarrow>
   string \<Rightarrow> (string \<times> string) list" where
  "seq m1 m2 s = concat (map (\<lambda>(a, r1). map (\<lambda>(b, r2). (a @ b, r2)) (m2 r1)) (m1 s))"

definition alt ::
  "(string \<Rightarrow> (string \<times> string) list) \<Rightarrow> (string \<Rightarrow> (string \<times> string) list) \<Rightarrow>
   string \<Rightarrow> (string \<times> string) list" where
  "alt m1 m2 s = m1 s @ m2 s"

definition re_d :: "string \<Rightarrow> (string \<times> string) list" where
  "re_d =
     alt (seq (one_of ''3'') (one_of ''01''))
    (alt (seq (one_of ''12'') (one_of digit_chars))
    (alt (seq (one_of ''0'') (one_of ''123456789''))
    (alt (one_of ''123456789'')
         (seq (one_of '' '') (one_of ''123456789'')))))"

definition re_m :: "string \<Rightarrow> (string \<times> string) list" where
  "re_m =
     alt (seq (one_of ''1'') (one_of ''012''))
    (alt (seq (one_of ''0'') (one_of ''123456789''))
         (one_of ''123456789''))"

definition re_Y :: "string \<Rightarrow> (string \<times> string) list" where
  "re_Y = seq (one_of digit_chars) (seq (one_of digit_chars)
            (seq (one_of digit_chars) (one_of digit_chars)))"

text \<open>The groups \<open>d\<close>, \<open>m\<close>, \<open>Y\<close> of every match, and the text left after it.\<close>

definition format_regex :: "string \<Rightarrow> (string \<times> string \<times> string \<times> string) list" where
  "format_regex s =
     concat (map (\<lambda>(d, r1).
       concat (map (\<lambda>(s1, r2).
         concat (map (\<lambda>(m, r3).
           concat (map (\<lambda>(s2, r4).
             map (\<lambda>(y, rest). (d, m, y, rest)) (re_Y r4))
           (one_of ''/'' r3)))
         (re_m r2)))
       (one_of ''/'' r1)))
     (re_d s))"

text \<open>\<^verbatim>\<open>int(s)\<close> on the text of a group: digits, after a blank in the last form of the day.\<close>

definition py_int :: "string \<Rightarrow> int" where
  "py_int s =
     foldl (\<lambda>acc c. 10 * acc + (int (of_char c) - 48)) 0 (dropWhile (\<lambda>c. c = CHR '' '') s)"

definition format_repr :: string where
  "format_repr = squote # ''%d/%m/%Y'' @ [squote]"

definition strptime :: "string \<Rightarrow> error + datetime" where
  "strptime data_string =
     (case format_regex data_string of
        [] \<Rightarrow>
          Inl (ValueError (''time data '' @ repr data_string @
                           '' does not match format '' @ format_repr))
      | (d, m, y, rest) # _ \<Rightarrow>
          if rest \<noteq> [] then Inl (ValueError (''unconverted data remains: '' @ rest))
          else
            (let y' = py_int y; m' = py_int m; d' = py_int d in
             if y' < 1 then Inl (ValueError (''year '' @ str_int y' @ '' is out of range''))
             else if days_in_month y' m' < d'
               then Inl (ValueError ''day is out of range for month'')
             else Inr \<lparr>year = y', month = m', day = d'\<rparr>))"

subsection \<open>The class attributes\<close>

text \<open>
  \<^verbatim>\<open>product(xs, repeat = n)\<close>: the tuples in lexicographic order, the last position
  changing fastest.
\<close>

fun product_repeat :: "'a list \<Rightarrow> nat \<Rightarrow> 'a list list" where
  "product_repeat xs 0 = [[]]"
| "product_repeat xs (Suc n) = concat (map (\<lambda>x. map ((#) x) (product_repeat xs n)) xs)"

definition allowed_plate_chars :: "char list" where
  "allowed_plate_chars = filter (\<lambda>char. char \<notin> set ''IQZ'') ascii_uppercase"

definition all_possible_random_strings :: "string list" where
  "all_possible_random_strings = product_repeat allowed_plate_chars 3"

subsection \<open>The object and the world\<close>

text \<open>
  An attribute that \<^verbatim>\<open>__init__\<close> may leave unassigned is an option: reading it when it
  is \<open>None\<close> raises \<^verbatim>\<open>AttributeError\<close>.
\<close>

record generator =
  save_file_path :: string
  existing_generated_plates :: "string set option"

text \<open>
  A file is the rows that \<^verbatim>\<open>csv.reader\<close> yields from it, each row the list of its
  fields, or a file that cannot be opened (\<^verbatim>\<open>open\<close> raises \<^verbatim>\<open>IOError\<close>).
  \<^verbatim>\<open>csv.writer.writerow\<close> adds one row.
\<close>

datatype csv_file = Rows "string list list" | Unreadable

record world =
  files :: "string \<rightharpoonup> csv_file"
  stdout :: "string list"

definition isfile :: "world \<Rightarrow> string \<Rightarrow> bool" where
  "isfile w path = (files w path \<noteq> None)"

definition print :: "string \<Rightarrow> world \<Rightarrow> world" where
  "print line w = w\<lparr>stdout := stdout w @ [line]\<rparr>"

definition no_attribute :: error where
  "no_attribute =
     AttributeError (squote # ''UKNumberPlateGenerator'' @ [squote] @ '' object has no attribute '' @
                     squote # ''existing_generated_plates'' @ [squote])"

subsection \<open>\<^verbatim>\<open>load_from_csv\<close> and \<^verbatim>\<open>save_to_csv\<close>\<close>

fun read_rows :: "string list list \<Rightarrow> string list \<Rightarrow> string list" where
  "read_rows [] csv_rows = csv_rows"
| "read_rows (row # rows) csv_rows =
     read_rows rows (if row \<noteq> [] then csv_rows @ [hd row] else csv_rows)"

definition load_from_csv :: "generator \<Rightarrow> world \<Rightarrow> (error + string set) \<times> world" where
  "load_from_csv self w =
     (case files w (save_file_path self) of
        None \<Rightarrow> (Inl IOError, w)
      | Some Unreadable \<Rightarrow> (Inl IOError, w)
      | Some (Rows rows) \<Rightarrow>
          (let csv_rows = read_rows rows []
           in (Inr (set csv_rows),
               print (''successfully loaded '' @ str_nat (length csv_rows) @ '' rows from '' @
                      squote # save_file_path self @ [squote]) w)))"

text \<open>
  \<open>order\<close> is the order in which the loop meets the elements of the set, which Python
  leaves open: any list of the elements of the set, each once. Opening the file for
  writing empties it before the attribute is read.
\<close>

fun write_rows :: "string list \<Rightarrow> string list list \<Rightarrow> string list list" where
  "write_rows [] rows = rows"
| "write_rows (s # ss) rows = write_rows ss (rows @ [[s]])"

definition save_to_csv :: "string list \<Rightarrow> generator \<Rightarrow> world \<Rightarrow> (error + unit) \<times> world" where
  "save_to_csv order self w =
     (if files w (save_file_path self) = Some Unreadable then (Inl IOError, w)
      else
        (case existing_generated_plates self of
           None \<Rightarrow> (Inl no_attribute, w\<lparr>files := (files w)(save_file_path self \<mapsto> Rows [])\<rparr>)
         | Some plates \<Rightarrow>
             (Inr (),
              print (''Successfully saved '' @ str_nat (card plates) @
                     '' existing generated plates to '' @ squote # save_file_path self @ [squote])
                (w\<lparr>files := (files w)(save_file_path self \<mapsto> Rows (write_rows order []))\<rparr>))))"

subsection \<open>\<^verbatim>\<open>__init__\<close>\<close>

definition init :: "string \<Rightarrow> world \<Rightarrow> (error + generator) \<times> world" where
  "init path w =
     (if last_chars 4 path \<noteq> ''.csv'' then (Inl (ValueError ''File must be a .csv file''), w)
      else if isfile w path then
        (case load_from_csv \<lparr>save_file_path = path, existing_generated_plates = None\<rparr> w of
           (Inr plates, w') \<Rightarrow>
             (Inr \<lparr>save_file_path = path, existing_generated_plates = Some plates\<rparr>, w')
         | (Inl IOError, w') \<Rightarrow>
             (Inr \<lparr>save_file_path = path, existing_generated_plates = None\<rparr>,
              print ''Failed to load existing generated plates due to {err}'' w')
         | (Inl e, w') \<Rightarrow> (Inl e, w'))
      else (Inr \<lparr>save_file_path = path, existing_generated_plates = Some {}\<rparr>, w))"

subsection \<open>\<^verbatim>\<open>generate_age_identifier\<close>\<close>

definition generate_age_identifier :: "datetime \<Rightarrow> string" where
  "generate_age_identifier date_created =
     (if 3 \<le> month date_created \<and> month date_created \<le> 8
      then last_chars 2 (str_int (year date_created))
      else last_chars 2 (str_int (year date_created + 50)))"

subsection \<open>\<^verbatim>\<open>generate_available_random_string\<close>\<close>

text \<open>
  \<open>start_index\<close> is the value that \<^verbatim>\<open>random.randint(0, len(...) - 1)\<close> returned. The
  loop \<^verbatim>\<open>for i in range(len(...))\<close> runs over the list of the values of \<open>i\<close>.
\<close>

fun scan :: "generator \<Rightarrow> string \<Rightarrow> nat \<Rightarrow> nat list \<Rightarrow> error + string" where
  "scan self number_plate_prefix start_index [] =
     Inl (ValueError ''No more unique strings available'')"
| "scan self number_plate_prefix start_index (i # rest) =
     (let index = (start_index + i) mod length all_possible_random_strings;
          random_string = all_possible_random_strings ! index
      in case existing_generated_plates self of
           None \<Rightarrow> Inl no_attribute
         | Some plates \<Rightarrow>
             if number_plate_prefix @ '' '' @ random_string \<notin> plates then Inr random_string
             else scan self number_plate_prefix start_index rest)"

definition generate_available_random_string :: "nat \<Rightarrow> generator \<Rightarrow> string \<Rightarrow> error + string" where
  "generate_available_random_string start_index self number_plate_prefix =
     scan self number_plate_prefix start_index [0..<length all_possible_random_strings]"

subsection \<open>\<^verbatim>\<open>generate_numberplate\<close>\<close>

definition generate_numberplate ::
  "nat \<Rightarrow> string \<Rightarrow> string \<Rightarrow> generator \<Rightarrow> world \<Rightarrow> (error + string) \<times> generator \<times> world" where
  "generate_numberplate start_index dvla_memory_tag date_created_str self w =
     (case strptime date_created_str of
        Inl e \<Rightarrow> (Inl e, self, w)
      | Inr date_created \<Rightarrow>
          (let tag = upper dvla_memory_tag in
           if list_ex (\<lambda>invalid_char. invalid_char \<in> set tag) ''IQZ''
             then (Inl (ValueError ''I, Q, Z not allowed in UK number plates''), self, w)
           else if length tag \<noteq> 2
             then (Inl (ValueError ''DVLA memory tag must be 2 characters in length''), self, w)
           else
             (let age_identifier = generate_age_identifier date_created;
                  number_plate_prefix = tag @ age_identifier
              in case generate_available_random_string start_index self number_plate_prefix of
                   Inl e \<Rightarrow> (Inl e, self, w)
                 | Inr random_string \<Rightarrow>
                     (let generated_number_plate = number_plate_prefix @ '' '' @ random_string
                      in case existing_generated_plates self of
                           None \<Rightarrow> (Inl no_attribute, self, w)
                         | Some plates \<Rightarrow>
                             (Inr generated_number_plate,
                              self\<lparr>existing_generated_plates :=
                                     Some (insert generated_number_plate plates)\<rparr>,
                              w)))))"

section \<open>The specification's words\<close>

text \<open>The last two decimal digits of a number, as a two-character string.\<close>

definition spec_last_two_digits :: "int \<Rightarrow> string" where
  "spec_last_two_digits n = [digit_chars ! nat (n div 10 mod 10), digit_chars ! nat (n mod 10)]"

text \<open>The message \<^verbatim>\<open>time data '<input>' does not match format '%d/%m/%Y'\<close>.\<close>

definition spec_date_format_message :: "string \<Rightarrow> string" where
  "spec_date_format_message input =
     ''time data '' @ squote # input @ [squote] @ '' does not match format '' @
     squote # ''%d/%m/%Y'' @ [squote]"

text \<open>The path ends in \<^verbatim>\<open>.csv\<close>.\<close>

definition spec_csv_extension :: "string \<Rightarrow> bool" where
  "spec_csv_extension path = suffix ''.csv'' path"

text \<open>
  A character that \<^verbatim>\<open>repr\<close> writes as it is between single quotes: printable, not the
  single quote and not the backslash.
\<close>

definition plain_char :: "char \<Rightarrow> bool" where
  "plain_char c =
     (let n = (of_char c :: nat)
      in 32 \<le> n \<and> (n < 127 \<or> 160 < n) \<and> n \<noteq> 173 \<and> c \<noteq> squote \<and> c \<noteq> backslash)"

section \<open>Properties\<close>

subsection \<open>The candidates\<close>

lemma length_product_repeat: "length (product_repeat xs n) = length xs ^ n"
proof (induction n)
  case 0
  show ?case by simp
next
  case (Suc n)
  have "length (concat (map (\<lambda>x. map ((#) x) ys) zs)) = length zs * length ys"
    for ys :: "'a list list" and zs :: "'a list"
    by (induction zs) simp_all
  with Suc show ?case by simp
qed

lemma allowed_plate_chars_eq: "allowed_plate_chars = ''ABCDEFGHJKLMNOPRSTUVWXY''"
  by (simp add: allowed_plate_chars_def ascii_uppercase_def)

lemma length_allowed_plate_chars: "length allowed_plate_chars = 23"
  by (simp add: allowed_plate_chars_eq)

lemma length_all_possible_random_strings: "length all_possible_random_strings = 12167"
  by (simp add: all_possible_random_strings_def length_product_repeat length_allowed_plate_chars)

lemma nth_concat_blocks:
  assumes "\<And>x. x \<in> set xs \<Longrightarrow> length (f x) = m" and "i < length xs * m"
  shows "concat (map f xs) ! i = f (xs ! (i div m)) ! (i mod m)"
  using assms
proof (induction xs arbitrary: i)
  case Nil
  then show ?case by simp
next
  case (Cons x xs)
  have m: "0 < m" using Cons.prems(2) by (cases m) auto
  have lx: "length (f x) = m" using Cons.prems(1) by simp
  show ?case
  proof (cases "i < m")
    case True
    then show ?thesis using lx by (simp add: nth_append)
  next
    case False
    then have ge: "m \<le> i" by simp
    have lt: "i - m < length xs * m" using Cons.prems(2) ge by simp
    have ih: "concat (map f xs) ! (i - m) = f (xs ! ((i - m) div m)) ! ((i - m) mod m)"
      using Cons.IH [of "i - m"] Cons.prems(1) lt by simp
    have d: "i div m = Suc ((i - m) div m)"
      using ge m by (simp add: le_div_geq)
    have r: "(i - m) mod m = i mod m"
      using ge by (simp add: le_mod_geq)
    show ?thesis using False lx ih d r by (simp add: nth_append)
  qed
qed

lemma nth_product_repeat_Suc:
  assumes "i < length xs ^ Suc n"
  shows "product_repeat xs (Suc n) ! i =
           xs ! (i div length xs ^ n) # product_repeat xs n ! (i mod length xs ^ n)"
proof -
  let ?m = "length xs ^ n"
  have pos: "0 < ?m" using assms by (cases "length xs = 0") auto
  have lt: "i < length xs * ?m" using assms by simp
  have "product_repeat xs (Suc n) ! i =
          map ((#) (xs ! (i div ?m))) (product_repeat xs n) ! (i mod ?m)"
    unfolding product_repeat.simps
    by (rule nth_concat_blocks) (simp_all add: length_product_repeat lt)
  also have "\<dots> = xs ! (i div ?m) # product_repeat xs n ! (i mod ?m)"
    using pos by (simp add: length_product_repeat)
  finally show ?thesis .
qed

lemma nth_all_possible_random_strings:
  assumes "a < 23" and "b < 23" and "c < 23"
  shows "all_possible_random_strings ! (a * 529 + b * 23 + c) =
           [allowed_plate_chars ! a, allowed_plate_chars ! b, allowed_plate_chars ! c]"
proof -
  let ?i = "a * 529 + b * 23 + c"
  have three: "(3::nat) = Suc (Suc (Suc 0))" by simp
  have i3: "?i < 23 ^ 3" using assms by simp
  have d1: "?i div 529 = a" using assms by simp
  have "?i mod 529 = (a * 529 + (b * 23 + c)) mod 529" by (simp add: add.assoc)
  also have "\<dots> = (b * 23 + c) mod 529" by (rule mod_mult_self3)
  also have "\<dots> = b * 23 + c" using assms by simp
  finally have r1: "?i mod 529 = b * 23 + c" .
  have d2: "(b * 23 + c) div 23 = b" using assms by simp
  have r2: "(b * 23 + c) mod 23 = c" using assms by simp
  have "product_repeat allowed_plate_chars (Suc (Suc (Suc 0))) ! ?i =
          allowed_plate_chars ! a # product_repeat allowed_plate_chars (Suc (Suc 0)) ! (b * 23 + c)"
    using i3 d1 r1
    by (subst nth_product_repeat_Suc) (simp_all add: length_allowed_plate_chars three)
  also have "product_repeat allowed_plate_chars (Suc (Suc 0)) ! (b * 23 + c) =
          allowed_plate_chars ! b # product_repeat allowed_plate_chars (Suc 0) ! c"
    using assms d2 r2
    by (subst nth_product_repeat_Suc) (simp_all add: length_allowed_plate_chars)
  also have "product_repeat allowed_plate_chars (Suc 0) ! c = [allowed_plate_chars ! c]"
    using assms
    by (subst nth_product_repeat_Suc) (simp_all add: length_allowed_plate_chars)
  finally show ?thesis by (simp add: all_possible_random_strings_def three)
qed

lemma product_repeat_product_lists: "product_repeat xs n = product_lists (replicate n xs)"
  by (induction n) simp_all

lemma distinct_all_possible_random_strings: "distinct all_possible_random_strings"
  unfolding all_possible_random_strings_def product_repeat_product_lists
  by (rule distinct_product_lists) (simp add: allowed_plate_chars_eq)

lemma scan_find:
  assumes "existing_generated_plates self = Some plates"
  shows "scan self p s js =
           (case find (\<lambda>i. p @ '' '' @ all_possible_random_strings !
                               ((s + i) mod length all_possible_random_strings) \<notin> plates) js of
              None \<Rightarrow> Inl (ValueError ''No more unique strings available'')
            | Some i \<Rightarrow>
                Inr (all_possible_random_strings ! ((s + i) mod length all_possible_random_strings)))"
  using assms by (induction js) (simp_all add: Let_def)

lemma circular_index_onto:
  assumes "j < (n::nat)"
  shows "\<exists>i<n. (s + i) mod n = j"
proof -
  let ?i = "(n - s mod n + j) mod n"
  have n: "0 < n" using assms by simp
  have "(s + ?i) mod n = (s mod n + (n - s mod n + j)) mod n"
    by (simp add: mod_add_eq mod_add_left_eq mod_add_right_eq)
  also have "s mod n + (n - s mod n + j) = n + j"
    using mod_less_divisor [OF n, of s] by simp
  also have "(n + j) mod n = j" using assms by simp
  finally have "(s + ?i) mod n = j" .
  moreover have "?i < n" using n by simp
  ultimately show ?thesis by blast
qed

lemma circular_index_inj:
  "inj_on (\<lambda>i. (s + i) mod n) {0..<(n::nat)}"
proof (rule inj_onI)
  fix x y
  assume x: "x \<in> {0..<n}" and y: "y \<in> {0..<n}" and e: "(s + x) mod n = (s + y) mod n"
  have aux: "a = b" if "a \<le> b" "b < n" "(s + a) mod n = (s + b) mod n" for a b
  proof -
    have "s + a \<le> s + b" using that by simp
    then have "n dvd (s + b) - (s + a)"
      using that(3) mod_eq_dvd_iff_nat [of "s + a" "s + b" n] by simp
    then have "n dvd b - a" by simp
    moreover have "b - a < n" using that by simp
    ultimately have "b - a = 0" by (meson dvd_imp_le not_less zero_less_iff_neq_zero)
    with that show ?thesis by simp
  qed
  show "x = y"
  proof (cases "x \<le> y")
    case True
    then show ?thesis using aux [of x y] y e by simp
  next
    case False
    then show ?thesis using aux [of y x] x e by simp
  qed
qed

subsection \<open>The circular scan\<close>

lemma scan_range_result:
  assumes attr: "existing_generated_plates self = Some plates"
    and res: "generate_available_random_string s self p = Inr r"
  shows "\<exists>k<12167. r = all_possible_random_strings ! ((s + k) mod 12167) \<and>
           p @ '' '' @ r \<notin> plates \<and>
           (\<forall>j<k. p @ '' '' @ all_possible_random_strings ! ((s + j) mod 12167) \<in> plates)"
proof -
  let ?P = "\<lambda>i. p @ '' '' @ all_possible_random_strings ! ((s + i) mod 12167) \<notin> plates"
  from res obtain k where f: "find ?P [0..<12167] = Some k"
    and r: "r = all_possible_random_strings ! ((s + k) mod 12167)"
    unfolding generate_available_random_string_def scan_find [OF attr]
      length_all_possible_random_strings
    by (auto split: option.splits)
  from f obtain i where i: "i < length [0..<12167::nat]" "?P ([0..<12167] ! i)"
    "k = [0..<12167] ! i" "\<forall>j<i. \<not> ?P ([0..<12167] ! j)"
    unfolding find_Some_iff by blast
  have ki: "k = i" using i(1,3) by simp
  have "k < 12167" using i(1) ki by simp
  moreover have "p @ '' '' @ r \<notin> plates" using i(2) i(1) r ki by simp
  moreover have "\<forall>j<k. p @ '' '' @ all_possible_random_strings ! ((s + j) mod 12167) \<in> plates"
  proof (intro allI impI)
    fix j assume "j < k"
    then have "j < i" "j < 12167" using ki i(1) by simp_all
    then show "p @ '' '' @ all_possible_random_strings ! ((s + j) mod 12167) \<in> plates"
      using i(4) by (metis add_0 nth_upt)
  qed
  ultimately show ?thesis using r by blast
qed

lemma scan_range_exhausted:
  assumes attr: "existing_generated_plates self = Some plates"
  shows "(\<exists>r. generate_available_random_string s self p = Inr r) \<longleftrightarrow>
         (\<exists>c \<in> set all_possible_random_strings. p @ '' '' @ c \<notin> plates)"
proof
  assume "\<exists>r. generate_available_random_string s self p = Inr r"
  then obtain r where "generate_available_random_string s self p = Inr r" ..
  from scan_range_result [OF attr this] obtain k where
    "k < 12167" "r = all_possible_random_strings ! ((s + k) mod 12167)" "p @ '' '' @ r \<notin> plates"
    by blast
  moreover have "r \<in> set all_possible_random_strings"
    using calculation(2) by (simp add: length_all_possible_random_strings)
  ultimately show "\<exists>c \<in> set all_possible_random_strings. p @ '' '' @ c \<notin> plates" by blast
next
  assume "\<exists>c \<in> set all_possible_random_strings. p @ '' '' @ c \<notin> plates"
  then obtain j where j: "j < 12167" "p @ '' '' @ all_possible_random_strings ! j \<notin> plates"
    by (auto simp: in_set_conv_nth length_all_possible_random_strings)
  from circular_index_onto [OF j(1), of s] obtain i where i: "i < 12167" "(s + i) mod 12167 = j"
    by blast
  let ?P = "\<lambda>i. p @ '' '' @ all_possible_random_strings ! ((s + i) mod 12167) \<notin> plates"
  have "\<exists>x \<in> set [0..<12167]. ?P x" using i j by auto
  then have "find ?P [0..<12167] \<noteq> None" unfolding find_None_iff by blast
  then show "\<exists>r. generate_available_random_string s self p = Inr r"
    unfolding generate_available_random_string_def scan_find [OF attr]
      length_all_possible_random_strings
    by (auto split: option.splits)
qed

lemma scan_range_error:
  assumes attr: "existing_generated_plates self = Some plates"
    and res: "generate_available_random_string s self p = Inl e"
  shows "e = ValueError ''No more unique strings available''"
  using res unfolding generate_available_random_string_def scan_find [OF attr]
  by (auto split: option.splits)

lemma nth_AAA: "all_possible_random_strings ! 0 = ''AAA''"
  using nth_all_possible_random_strings [of 0 0 0] by (simp add: allowed_plate_chars_eq)

lemma nth_AAB: "all_possible_random_strings ! Suc 0 = ''AAB''"
  using nth_all_possible_random_strings [of 0 0 1] by (simp add: allowed_plate_chars_eq)

lemma nth_AAC: "all_possible_random_strings ! Suc (Suc 0) = ''AAC''"
  using nth_all_possible_random_strings [of 0 0 2] by (simp add: allowed_plate_chars_eq)

lemma nth_AAF: "all_possible_random_strings ! 5 = ''AAF''"
  using nth_all_possible_random_strings [of 0 0 5] by (simp add: allowed_plate_chars_eq)

lemma nth_BFB: "all_possible_random_strings ! 645 = ''BFB''"
  using nth_all_possible_random_strings [of 1 5 1] by (simp add: allowed_plate_chars_eq)

lemma nth_YYY: "all_possible_random_strings ! 12166 = ''YYY''"
  using nth_all_possible_random_strings [of 22 22 22] by (simp add: allowed_plate_chars_eq)

lemma range_three: "[0..<12167] = 0 # Suc 0 # Suc (Suc 0) # [Suc (Suc (Suc 0))..<12167]"
proof -
  have "[0..<12167] = 0 # [Suc 0..<12167]" by (rule upt_conv_Cons) simp
  also have "[Suc 0..<12167] = Suc 0 # [Suc (Suc 0)..<12167]" by (rule upt_conv_Cons) simp
  also have "[Suc (Suc 0)..<12167] = Suc (Suc 0) # [Suc (Suc (Suc 0))..<12167]"
    by (rule upt_conv_Cons) simp
  finally show ?thesis .
qed

lemma scan_third:
  "scan \<lparr>save_file_path = path, existing_generated_plates = Some {p @ '' AAA'', p @ '' AAB''}\<rparr>
     p 0 (0 # Suc 0 # Suc (Suc 0) # rest) = Inr ''AAC''"
  by (simp add: Let_def length_all_possible_random_strings nth_AAA nth_AAB nth_AAC)

lemma third_free:
  "generate_available_random_string 0
     \<lparr>save_file_path = path, existing_generated_plates = Some {p @ '' AAA'', p @ '' AAB''}\<rparr> p =
   Inr ''AAC''"
  unfolding generate_available_random_string_def length_all_possible_random_strings range_three
  by (rule scan_third)

text \<open>
  Claim C1. With the attribute set and a start index in \<open>[0, 12166]\<close>: the candidates are
  the 12167 three-letter strings over \<open>ABCDEFGHJKLMNOPRSTUVWXY\<close> in lexicographic order;
  if some candidate is free for the prefix, the result is the first free candidate of the
  circular scan from the start index; a returned suffix is never taken; with an empty set
  the result is the candidate at the start index (index 0 is \<open>AAA\<close>, index 12166 is
  \<open>YYY\<close>); and with \<open>YA07 AAA\<close> and \<open>YA07 AAB\<close> taken, start index 0 gives \<open>AAC\<close>.
\<close>

theorem C1_first_free_suffix:
  assumes attr: "existing_generated_plates self = Some plates"
    and start: "start_index < 12167"
  shows "length all_possible_random_strings = 12167 \<and>
    (\<forall>a<23. \<forall>b<23. \<forall>c<23.
       all_possible_random_strings ! (a * 529 + b * 23 + c) =
         [''ABCDEFGHJKLMNOPRSTUVWXY'' ! a, ''ABCDEFGHJKLMNOPRSTUVWXY'' ! b,
          ''ABCDEFGHJKLMNOPRSTUVWXY'' ! c]) \<and>
    ((\<exists>c \<in> set all_possible_random_strings. number_plate_prefix @ '' '' @ c \<notin> plates) \<longrightarrow>
       (\<exists>k<12167.
          generate_available_random_string start_index self number_plate_prefix =
            Inr (all_possible_random_strings ! ((start_index + k) mod 12167)) \<and>
          number_plate_prefix @ '' '' @ all_possible_random_strings ! ((start_index + k) mod 12167) \<notin> plates \<and>
          (\<forall>j<k. number_plate_prefix @ '' '' @ all_possible_random_strings ! ((start_index + j) mod 12167)
                    \<in> plates))) \<and>
    (\<forall>r. generate_available_random_string start_index self number_plate_prefix = Inr r \<longrightarrow>
         r \<in> set all_possible_random_strings \<and> number_plate_prefix @ '' '' @ r \<notin> plates) \<and>
    (plates = {} \<longrightarrow>
       generate_available_random_string start_index self number_plate_prefix =
         Inr (all_possible_random_strings ! start_index)) \<and>
    all_possible_random_strings ! 0 = ''AAA'' \<and>
    all_possible_random_strings ! 12166 = ''YYY'' \<and>
    generate_available_random_string 0
      \<lparr>save_file_path = ''test.csv'',
         existing_generated_plates = Some {''YA07 AAA'', ''YA07 AAB''}\<rparr> ''YA07'' = Inr ''AAC''"
proof -
  let ?gen = "generate_available_random_string start_index self number_plate_prefix"
  let ?cand = "\<lambda>i. all_possible_random_strings ! ((start_index + i) mod 12167)"
  have first: "\<exists>k<12167. ?gen = Inr (?cand k) \<and> number_plate_prefix @ '' '' @ ?cand k \<notin> plates \<and>
                 (\<forall>j<k. number_plate_prefix @ '' '' @ ?cand j \<in> plates)"
    if "\<exists>c \<in> set all_possible_random_strings. number_plate_prefix @ '' '' @ c \<notin> plates"
  proof -
    from that scan_range_exhausted [OF attr, of start_index number_plate_prefix]
    obtain r where r: "?gen = Inr r" by blast
    from scan_range_result [OF attr r] r show ?thesis by blast
  qed
  have sound: "r \<in> set all_possible_random_strings \<and> number_plate_prefix @ '' '' @ r \<notin> plates"
    if "?gen = Inr r" for r
  proof -
    from scan_range_result [OF attr that] obtain k where
      "k < 12167" "r = ?cand k" "number_plate_prefix @ '' '' @ r \<notin> plates" by blast
    then show ?thesis by (simp add: length_all_possible_random_strings)
  qed
  have empty: "?gen = Inr (all_possible_random_strings ! start_index)" if "plates = {}"
  proof -
    have "''AAA'' \<in> set all_possible_random_strings"
      using nth_mem [of 0 all_possible_random_strings]
      by (simp add: length_all_possible_random_strings nth_AAA)
    with that have "\<exists>c \<in> set all_possible_random_strings. number_plate_prefix @ '' '' @ c \<notin> plates"
      by blast
    from first [OF this] obtain k where k: "?gen = Inr (?cand k)"
      "\<forall>j<k. number_plate_prefix @ '' '' @ ?cand j \<in> plates" by blast
    have "k = 0"
    proof (rule ccontr)
      assume "k \<noteq> 0"
      then have "0 < k" by simp
      with k(2) have "number_plate_prefix @ '' '' @ ?cand 0 \<in> plates" by blast
      with that show False by simp
    qed
    with k(1) start show ?thesis by simp
  qed
  have table: "\<forall>a<23. \<forall>b<23. \<forall>c<23.
       all_possible_random_strings ! (a * 529 + b * 23 + c) =
         [''ABCDEFGHJKLMNOPRSTUVWXY'' ! a, ''ABCDEFGHJKLMNOPRSTUVWXY'' ! b,
          ''ABCDEFGHJKLMNOPRSTUVWXY'' ! c]"
    using nth_all_possible_random_strings unfolding allowed_plate_chars_eq by blast
  have example: "generate_available_random_string 0
      \<lparr>save_file_path = ''test.csv'',
         existing_generated_plates = Some {''YA07 AAA'', ''YA07 AAB''}\<rparr> ''YA07'' = Inr ''AAC''"
    using third_free [of "''test.csv''" "''YA07''"] by simp
  show ?thesis
    using length_all_possible_random_strings table first sound empty nth_AAA nth_YYY example
    by blast
qed

text \<open>
  The scan wraps around: from the last index, with \<open>YYY\<close> taken, the result is \<open>AAA\<close>.
\<close>

theorem C1_first_free_suffix_witness:
  "(12166::nat) < 12167 \<and>
   generate_available_random_string 12166
     \<lparr>save_file_path = ''test.csv'', existing_generated_plates = Some {''AB57 YYY''}\<rparr>
     ''AB57'' = Inr ''AAA''"
proof -
  let ?g = "\<lparr>save_file_path = ''test.csv'', existing_generated_plates = Some {''AB57 YYY''}\<rparr>"
  let ?cand = "\<lambda>i. all_possible_random_strings ! ((12166 + i) mod 12167)"
  have attr: "existing_generated_plates ?g = Some {''AB57 YYY''}" by simp
  have start: "(12166::nat) < 12167" by simp
  have c0: "?cand 0 = ''YYY''" by (simp add: nth_YYY)
  have c1: "?cand 1 = ''AAA''" by (simp add: nth_AAA)
  have "''AAA'' \<in> set all_possible_random_strings"
    using nth_mem [of 0 all_possible_random_strings]
    by (simp add: length_all_possible_random_strings nth_AAA)
  then have free: "\<exists>c \<in> set all_possible_random_strings. ''AB57'' @ '' '' @ c \<notin> {''AB57 YYY''}"
    by (intro bexI [of _ "''AAA''"]) simp_all
  from C1_first_free_suffix [OF attr start, of "''AB57''"] free
  obtain k where k: "generate_available_random_string 12166 ?g ''AB57'' = Inr (?cand k)"
    "''AB57'' @ '' '' @ ?cand k \<notin> {''AB57 YYY''}"
    "\<forall>j<k. ''AB57'' @ '' '' @ ?cand j \<in> {''AB57 YYY''}"
    by blast
  have "k \<noteq> 0" using k(2) c0 by (intro notI) simp
  moreover have "\<not> 1 < k"
  proof
    assume "1 < k"
    with k(3) have "''AB57'' @ '' '' @ ?cand 1 \<in> {''AB57 YYY''}" by blast
    then show False unfolding c1 by simp
  qed
  ultimately have "k = 1" by simp
  with k(1) c1 start show ?thesis by simp
qed

text \<open>
  Claim C4. With the attribute set, the call raises \<open>No more unique strings available\<close>
  exactly when every one of the 12167 candidates is taken for the prefix, and it raises
  nothing else; the candidates are pairwise different and the scan visits every index at
  most once.
\<close>

theorem C4_exhaustion_iff:
  assumes attr: "existing_generated_plates self = Some plates"
  shows "(generate_available_random_string start_index self number_plate_prefix =
            Inl (ValueError ''No more unique strings available'') \<longleftrightarrow>
          (\<forall>c \<in> set all_possible_random_strings. number_plate_prefix @ '' '' @ c \<in> plates)) \<and>
         (\<forall>e. generate_available_random_string start_index self number_plate_prefix = Inl e \<longrightarrow>
              e = ValueError ''No more unique strings available'') \<and>
         length all_possible_random_strings = 12167 \<and>
         distinct all_possible_random_strings \<and>
         inj_on (\<lambda>i. (start_index + i) mod 12167) {0..<12167}"
proof -
  let ?gen = "generate_available_random_string start_index self number_plate_prefix"
  have err: "e = ValueError ''No more unique strings available''" if "?gen = Inl e" for e
    using scan_range_error [OF attr that] .
  have "?gen = Inl (ValueError ''No more unique strings available'') \<longleftrightarrow>
        \<not> (\<exists>r. ?gen = Inr r)"
    using err by (cases ?gen) auto
  also have "\<dots> \<longleftrightarrow> (\<forall>c \<in> set all_possible_random_strings. number_plate_prefix @ '' '' @ c \<in> plates)"
    using scan_range_exhausted [OF attr, of start_index number_plate_prefix] by blast
  finally show ?thesis
    using err length_all_possible_random_strings distinct_all_possible_random_strings
      circular_index_inj [of start_index 12167]
    by blast
qed

text \<open>
  The set of the test, all candidates taken for \<open>DH14\<close>, and the empty set.
\<close>

theorem C4_exhaustion_iff_witness:
  "generate_available_random_string 0
     \<lparr>save_file_path = ''test.csv'',
        existing_generated_plates = Some ((@) ''DH14 '' ` set all_possible_random_strings)\<rparr>
     ''DH14'' = Inl (ValueError ''No more unique strings available'') \<and>
   generate_available_random_string 0
     \<lparr>save_file_path = ''test.csv'', existing_generated_plates = Some {}\<rparr>
     ''DH14'' \<noteq> Inl (ValueError ''No more unique strings available'')"
proof -
  let ?full = "(@) ''DH14 '' ` set all_possible_random_strings"
  let ?g = "\<lparr>save_file_path = ''test.csv'', existing_generated_plates = Some ?full\<rparr>"
  let ?h = "\<lparr>save_file_path = ''test.csv'', existing_generated_plates = Some {}\<rparr>"
  have "\<forall>c \<in> set all_possible_random_strings. ''DH14'' @ '' '' @ c \<in> ?full" by simp
  moreover have "existing_generated_plates ?g = Some ?full" by simp
  ultimately have a: "generate_available_random_string 0 ?g ''DH14'' =
      Inl (ValueError ''No more unique strings available'')"
    using C4_exhaustion_iff [of ?g ?full 0 "''DH14''"] by blast
  have "''AAA'' \<in> set all_possible_random_strings"
    using nth_mem [of 0 all_possible_random_strings]
    by (simp add: length_all_possible_random_strings nth_AAA)
  then have "\<not> (\<forall>c \<in> set all_possible_random_strings. ''DH14'' @ '' '' @ c \<in> {})" by blast
  moreover have "existing_generated_plates ?h = Some {}" by simp
  ultimately have b: "generate_available_random_string 0 ?h ''DH14'' \<noteq>
      Inl (ValueError ''No more unique strings available'')"
    using C4_exhaustion_iff [of ?h "{}" 0 "''DH14''"] by blast
  from a b show ?thesis by blast
qed

subsection \<open>The age identifier\<close>

lemma str_nat_unfold:
  "str_nat n = (if n < 10 then [digit_chars ! n]
                else str_nat (n div 10) @ [digit_chars ! (n mod 10)])"
  by (rule str_nat.simps)

declare str_nat.simps [simp del]

lemma str_nat_last: "\<exists>ys. str_nat n = ys @ [digit_chars ! (n mod 10)]"
  by (subst str_nat_unfold) simp

lemma last_chars_str_nat:
  assumes "10 \<le> n"
  shows "last_chars 2 (str_nat n) = [digit_chars ! (n div 10 mod 10), digit_chars ! (n mod 10)]"
proof -
  from str_nat_last [of "n div 10"] obtain ys where
    ys: "str_nat (n div 10) = ys @ [digit_chars ! (n div 10 mod 10)]" ..
  have "str_nat n = str_nat (n div 10) @ [digit_chars ! (n mod 10)]"
    using assms by (subst str_nat_unfold) simp
  with ys have "str_nat n = ys @ [digit_chars ! (n div 10 mod 10), digit_chars ! (n mod 10)]"
    by simp
  then show ?thesis by (simp add: last_chars_def)
qed

lemma last_chars_str_int:
  assumes "10 \<le> y"
  shows "last_chars 2 (str_int y) = spec_last_two_digits y"
proof -
  have n: "10 \<le> nat y" using assms by simp
  have a: "nat y div 10 mod 10 = nat (y div 10 mod 10)"
    using assms by (simp add: nat_div_distrib nat_mod_distrib)
  have b: "nat y mod 10 = nat (y mod 10)"
    using assms by (simp add: nat_mod_distrib)
  show ?thesis
    using assms last_chars_str_nat [OF n] a b
    by (simp add: str_int_def spec_last_two_digits_def)
qed

lemma generate_age_identifier_two_digits:
  assumes "valid_date d" and "10 \<le> year d \<or> \<not> (3 \<le> month d \<and> month d \<le> 8)"
  shows "generate_age_identifier d =
           (if 3 \<le> month d \<and> month d \<le> 8 then spec_last_two_digits (year d)
            else spec_last_two_digits (year d + 50))"
proof -
  have "1 \<le> year d" using assms(1) by (simp add: valid_date_def)
  then have "10 \<le> year d + 50" by simp
  then show ?thesis
    using assms(2) by (auto simp: generate_age_identifier_def last_chars_str_int)
qed

text \<open>
  Claim C5. The date 0005-04-03 is a valid date (the parser accepts \<open>03/04/0005\<close>), its
  month is in \<open>[3, 8]\<close>, and the function returns the one-character string \<open>5\<close>, where
  the last two digits of the year are \<open>05\<close>. By \<open>generate_age_identifier_two_digits\<close>
  the function returns the two digits for every other valid date.
\<close>

theorem C5_age_identifier_one_digit:
  "valid_date \<lparr>year = 5, month = 4, day = 3\<rparr> \<and>
   generate_age_identifier \<lparr>year = 5, month = 4, day = 3\<rparr> = ''5'' \<and>
   spec_last_two_digits 5 = ''05'' \<and>
   strptime ''03/04/0005'' = Inr \<lparr>year = 5, month = 4, day = 3\<rparr>"
  by code_simp

lemma age_examples:
  "generate_age_identifier \<lparr>year = 2010, month = 4, day = 3\<rparr> = ''10'' \<and>
   generate_age_identifier \<lparr>year = 2001, month = 9, day = 25\<rparr> = ''51'' \<and>
   generate_age_identifier \<lparr>year = 2007, month = 3, day = 1\<rparr> = ''07''"
  by code_simp

subsection \<open>Minting a plate\<close>

lemma empty_set_result:
  assumes attr: "existing_generated_plates self = Some {}" and start: "s < 12167"
  shows "generate_available_random_string s self p = Inr (all_possible_random_strings ! s)"
proof -
  have "[0..<12167] = 0 # [Suc 0..<12167]" by (rule upt_conv_Cons) simp
  then show ?thesis
    using attr start
    by (simp add: generate_available_random_string_def length_all_possible_random_strings Let_def)
qed

lemma numberplate_success:
  assumes res: "generate_numberplate s tag ds self w = (Inr plate, self', w')"
    and attr: "existing_generated_plates self = Some plates"
  shows "\<exists>date suffix.
           strptime ds = Inr date \<and>
           \<not> list_ex (\<lambda>c. c \<in> set (upper tag)) ''IQZ'' \<and>
           length (upper tag) = 2 \<and>
           generate_available_random_string s self (upper tag @ generate_age_identifier date) =
             Inr suffix \<and>
           plate = upper tag @ generate_age_identifier date @ '' '' @ suffix \<and>
           self' = self\<lparr>existing_generated_plates := Some (insert plate plates)\<rparr> \<and>
           w' = w"
  using res attr
  by (auto simp: generate_numberplate_def Let_def split: sum.splits if_splits option.splits)

lemma numberplate_empty_set:
  assumes date: "strptime ds = Inr date"
    and letters: "\<not> list_ex (\<lambda>c. c \<in> set (upper tag)) ''IQZ''"
    and len: "length (upper tag) = 2"
    and start: "s < 12167"
  shows "generate_numberplate s tag ds
           \<lparr>save_file_path = path, existing_generated_plates = Some {}\<rparr> w =
         (Inr (upper tag @ generate_age_identifier date @ '' '' @ all_possible_random_strings ! s),
          \<lparr>save_file_path = path,
             existing_generated_plates =
               Some {upper tag @ generate_age_identifier date @ '' '' @
                     all_possible_random_strings ! s}\<rparr>,
          w)"
proof -
  let ?g = "\<lparr>save_file_path = path, existing_generated_plates = Some {}\<rparr>"
  have "generate_available_random_string s ?g (upper tag @ generate_age_identifier date) =
          Inr (all_possible_random_strings ! s)"
    by (rule empty_set_result) (simp_all add: start)
  then show ?thesis
    using date letters len by (simp add: generate_numberplate_def Let_def)
qed

lemma strptime_example_2017: "strptime ''03/11/2017'' = Inr \<lparr>year = 2017, month = 11, day = 3\<rparr>"
  by code_simp

lemma strptime_example_2021: "strptime ''06/07/2021'' = Inr \<lparr>year = 2021, month = 7, day = 6\<rparr>"
  by code_simp

lemma age_example_2017: "generate_age_identifier \<lparr>year = 2017, month = 11, day = 3\<rparr> = ''67''"
  by code_simp

lemma age_example_2021: "generate_age_identifier \<lparr>year = 2021, month = 7, day = 6\<rparr> = ''21''"
  by code_simp

lemma example_YR:
  "generate_numberplate 5 ''YR'' ''03/11/2017''
     \<lparr>save_file_path = ''test.csv'', existing_generated_plates = Some {}\<rparr> w =
   (Inr ''YR67 AAF'',
    \<lparr>save_file_path = ''test.csv'', existing_generated_plates = Some {''YR67 AAF''}\<rparr>, w)"
proof -
  have u: "upper ''YR'' = ''YR''" by code_simp
  have l: "\<not> list_ex (\<lambda>c. c \<in> set (upper ''YR'')) ''IQZ''" unfolding u by simp
  show ?thesis
    using numberplate_empty_set [OF strptime_example_2017 l, of 5 "''test.csv''" w]
    by (simp add: u age_example_2017 nth_AAF)
qed

lemma example_GH:
  "generate_numberplate 645 ''GH'' ''06/07/2021''
     \<lparr>save_file_path = ''test.csv'', existing_generated_plates = Some {}\<rparr> w =
   (Inr ''GH21 BFB'',
    \<lparr>save_file_path = ''test.csv'', existing_generated_plates = Some {''GH21 BFB''}\<rparr>, w)"
proof -
  have u: "upper ''GH'' = ''GH''" by code_simp
  have l: "\<not> list_ex (\<lambda>c. c \<in> set (upper ''GH'')) ''IQZ''" unfolding u by simp
  show ?thesis
    using numberplate_empty_set [OF strptime_example_2021 l, of 645 "''test.csv''" w]
    by (simp add: u age_example_2021 nth_BFB)
qed

subsection \<open>Upper case\<close>

lemma upper_char_lowercase:
  assumes "k < 26"
  shows "upper_char (''abcdefghijklmnopqrstuvwxyz'' ! k) = ''ABCDEFGHIJKLMNOPQRSTUVWXYZ'' ! k"
proof -
  have "map_of (zip ascii_lowercase ascii_uppercase) (ascii_lowercase ! k) =
          Some (ascii_uppercase ! k)"
    using assms by (intro map_of_zip_nth) (simp_all add: ascii_lowercase_def ascii_uppercase_def)
  then show ?thesis
    by (simp add: upper_char_def ascii_lowercase_def ascii_uppercase_def)
qed


lemma upper_char_other:
  assumes "c \<notin> set ''abcdefghijklmnopqrstuvwxyz''"
  shows "upper_char c = c"
proof -
  have "length ascii_lowercase = length ascii_uppercase"
    by (simp add: ascii_lowercase_def ascii_uppercase_def)
  then have "map_of (zip ascii_lowercase ascii_uppercase) c = None"
    using assms by (simp only: map_of_zip_is_None) (simp add: ascii_lowercase_def)
  then show ?thesis by (simp add: upper_char_def)
qed


lemma upper_pointwise:
  "length (upper s) = length s \<and>
   (\<forall>i<length s.
      (\<forall>k<26. s ! i = ''abcdefghijklmnopqrstuvwxyz'' ! k \<longrightarrow>
               upper s ! i = ''ABCDEFGHIJKLMNOPQRSTUVWXYZ'' ! k) \<and>
      (s ! i \<notin> set ''abcdefghijklmnopqrstuvwxyz'' \<longrightarrow> upper s ! i = s ! i))"
  using upper_char_lowercase upper_char_other by (simp add: upper_def)

lemma example_yr:
  "generate_numberplate 5 ''yr'' ''03/11/2017''
     \<lparr>save_file_path = ''test.csv'', existing_generated_plates = Some {}\<rparr> w =
   (Inr ''YR67 AAF'',
    \<lparr>save_file_path = ''test.csv'', existing_generated_plates = Some {''YR67 AAF''}\<rparr>, w)"
proof -
  have u: "upper ''yr'' = ''YR''" by code_simp
  have l: "\<not> list_ex (\<lambda>c. c \<in> set (upper ''yr'')) ''IQZ''" unfolding u by simp
  show ?thesis
    using numberplate_empty_set [OF strptime_example_2017 l, of 5 "''test.csv''" w]
    by (simp add: u age_example_2017 nth_AAF)
qed

text \<open>
  Claim C2. A call that succeeds, for an ASCII tag and with the attribute set, returns the
  upper-cased tag, the age identifier of the parsed date, a blank and the suffix that
  \<open>generate_available_random_string\<close> gives for that prefix; the plate was not in the set,
  the set afterwards is the old one with the plate added, and nothing else changes. The
  upper-cased tag has the length of the tag, the capital letter where the tag has a small
  letter and the tag's own character elsewhere. The two examples: \<open>YR\<close>, \<open>03/11/2017\<close>,
  start index 5 gives \<open>YR67 AAF\<close>, and so does the tag \<open>yr\<close>; \<open>GH\<close>, \<open>06/07/2021\<close>,
  start index 645 gives \<open>GH21 BFB\<close>.
\<close>

theorem C2_numberplate_success:
  assumes res: "generate_numberplate start_index dvla_memory_tag date_created_str self w =
                  (Inr plate, self', w')"
    and attr: "existing_generated_plates self = Some plates"
    and ascii: "is_ascii dvla_memory_tag"
  shows "(\<exists>date suffix.
            strptime date_created_str = Inr date \<and>
            generate_available_random_string start_index self
              (upper dvla_memory_tag @ generate_age_identifier date) = Inr suffix \<and>
            plate = upper dvla_memory_tag @ generate_age_identifier date @ '' '' @ suffix) \<and>
         plate \<notin> plates \<and>
         existing_generated_plates self' = Some (insert plate plates) \<and>
         save_file_path self' = save_file_path self \<and>
         w' = w \<and>
         generate_numberplate 5 ''YR'' ''03/11/2017''
           \<lparr>save_file_path = ''test.csv'', existing_generated_plates = Some {}\<rparr> w =
         (Inr ''YR67 AAF'',
          \<lparr>save_file_path = ''test.csv'', existing_generated_plates = Some {''YR67 AAF''}\<rparr>, w) \<and>
         generate_numberplate 645 ''GH'' ''06/07/2021''
           \<lparr>save_file_path = ''test.csv'', existing_generated_plates = Some {}\<rparr> w =
         (Inr ''GH21 BFB'',
          \<lparr>save_file_path = ''test.csv'', existing_generated_plates = Some {''GH21 BFB''}\<rparr>, w) \<and>
         length (upper dvla_memory_tag) = length dvla_memory_tag \<and>
         (\<forall>i<length dvla_memory_tag.
            (\<forall>k<26. dvla_memory_tag ! i = ''abcdefghijklmnopqrstuvwxyz'' ! k \<longrightarrow>
                     upper dvla_memory_tag ! i = ''ABCDEFGHIJKLMNOPQRSTUVWXYZ'' ! k) \<and>
            (dvla_memory_tag ! i \<notin> set ''abcdefghijklmnopqrstuvwxyz'' \<longrightarrow>
               upper dvla_memory_tag ! i = dvla_memory_tag ! i)) \<and>
         generate_numberplate 5 ''yr'' ''03/11/2017''
           \<lparr>save_file_path = ''test.csv'', existing_generated_plates = Some {}\<rparr> w =
         (Inr ''YR67 AAF'',
          \<lparr>save_file_path = ''test.csv'', existing_generated_plates = Some {''YR67 AAF''}\<rparr>, w)"
proof -
  from numberplate_success [OF res attr] obtain date suffix where
    d: "strptime date_created_str = Inr date"
    and g: "generate_available_random_string start_index self
              (upper dvla_memory_tag @ generate_age_identifier date) = Inr suffix"
    and p: "plate = upper dvla_memory_tag @ generate_age_identifier date @ '' '' @ suffix"
    and s: "self' = self\<lparr>existing_generated_plates := Some (insert plate plates)\<rparr>"
    and w: "w' = w"
    by blast
  have c1: "\<exists>date suffix.
            strptime date_created_str = Inr date \<and>
            generate_available_random_string start_index self
              (upper dvla_memory_tag @ generate_age_identifier date) = Inr suffix \<and>
            plate = upper dvla_memory_tag @ generate_age_identifier date @ '' '' @ suffix"
    using d g p by blast
  from scan_range_result [OF attr g] have c2: "plate \<notin> plates" using p by auto
  have c3: "existing_generated_plates self' = Some (insert plate plates)"
    and c4: "save_file_path self' = save_file_path self" using s by simp_all
  note pin = upper_pointwise [of dvla_memory_tag]
  from c1 c2 c3 c4 w example_YR [of w] example_GH [of w] pin [THEN conjunct1]
    pin [THEN conjunct2] example_yr [of w]
  show ?thesis by (intro conjI)
qed

subsection \<open>The order of the checks\<close>

lemma all_taken_error:
  assumes attr: "existing_generated_plates self = Some plates"
    and taken: "\<forall>c \<in> set all_possible_random_strings. p @ '' '' @ c \<in> plates"
  shows "generate_available_random_string s self p =
           Inl (ValueError ''No more unique strings available'')"
proof (cases "generate_available_random_string s self p")
  case (Inl e)
  with scan_range_error [OF attr Inl] show ?thesis by simp
next
  case (Inr r)
  with scan_range_exhausted [OF attr, of s p] taken show ?thesis by blast
qed

lemma numberplate_date_error:
  "strptime ds = Inl e \<Longrightarrow> generate_numberplate s tag ds self w = (Inl e, self, w)"
  by (simp add: generate_numberplate_def)

lemma numberplate_letter_error:
  "strptime ds = Inr date \<Longrightarrow> list_ex (\<lambda>c. c \<in> set (upper tag)) ''IQZ'' \<Longrightarrow>
   generate_numberplate s tag ds self w =
     (Inl (ValueError ''I, Q, Z not allowed in UK number plates''), self, w)"
  by (simp add: generate_numberplate_def Let_def)

lemma numberplate_length_error:
  "strptime ds = Inr date \<Longrightarrow> \<not> list_ex (\<lambda>c. c \<in> set (upper tag)) ''IQZ'' \<Longrightarrow>
   length (upper tag) \<noteq> 2 \<Longrightarrow>
   generate_numberplate s tag ds self w =
     (Inl (ValueError ''DVLA memory tag must be 2 characters in length''), self, w)"
  by (simp add: generate_numberplate_def Let_def)

lemma numberplate_scan:
  "strptime ds = Inr date \<Longrightarrow> \<not> list_ex (\<lambda>c. c \<in> set (upper tag)) ''IQZ'' \<Longrightarrow>
   length (upper tag) = 2 \<Longrightarrow> existing_generated_plates self = Some plates \<Longrightarrow>
   generate_numberplate s tag ds self w =
     (case generate_available_random_string s self (upper tag @ generate_age_identifier date) of
        Inl e \<Rightarrow> (Inl e, self, w)
      | Inr r \<Rightarrow>
          (Inr (upper tag @ generate_age_identifier date @ '' '' @ r),
           self\<lparr>existing_generated_plates :=
                  Some (insert (upper tag @ generate_age_identifier date @ '' '' @ r) plates)\<rparr>,
           w))"
  by (simp add: generate_numberplate_def Let_def split: sum.splits)

lemma numberplate_world: "snd (snd (generate_numberplate s tag ds self w)) = w"
  by (simp add: generate_numberplate_def Let_def split: sum.splits option.splits)

lemma numberplate_error_state:
  "generate_numberplate s tag ds self w = (Inl e, self', w') \<Longrightarrow> self' = self \<and> w' = w"
  by (auto simp: generate_numberplate_def Let_def split: sum.splits option.splits if_splits)

lemma repr_plain:
  assumes "list_all plain_char s"
  shows "repr s = squote # s @ [squote]"
proof -
  have q: "squote \<notin> set s" using assms by (auto simp: list_all_iff plain_char_def Let_def)
  have "concat (map (repr_char squote) s) = s"
    using assms
  proof (induction s)
    case Nil
    show ?case by simp
  next
    case (Cons c s)
    then have "repr_char squote c = [c]"
      by (auto simp: plain_char_def repr_char_def Let_def)
    with Cons show ?case by simp
  qed
  with q show ?thesis by (simp add: repr_def)
qed

lemma format_message_plain:
  "list_all plain_char s \<Longrightarrow>
   ''time data '' @ repr s @ '' does not match format '' @ format_repr =
     spec_date_format_message s"
  by (simp add: repr_plain spec_date_format_message_def format_repr_def)

lemma strptime_no_match:
  "format_regex s = [] \<Longrightarrow>
   strptime s = Inl (ValueError (''time data '' @ repr s @ '' does not match format '' @ format_repr))"
  by (simp add: strptime_def)

lemma strptime_errors:
  assumes "strptime s = Inl e"
  shows "e = ValueError (''time data '' @ repr s @ '' does not match format '' @ format_repr) \<or>
         (\<exists>rest. rest \<noteq> [] \<and> e = ValueError (''unconverted data remains: '' @ rest)) \<or>
         (\<exists>y<1. e = ValueError (''year '' @ str_int y @ '' is out of range'')) \<or>
         e = ValueError ''day is out of range for month''"
proof (cases "format_regex s")
  case Nil
  with assms show ?thesis by (simp add: strptime_def)
next
  case (Cons m ms)
  obtain d mm y rest where m: "m = (d, mm, y, rest)" by (cases m)
  show ?thesis
  proof (cases "rest = []")
    case False
    with assms Cons m have "e = ValueError (''unconverted data remains: '' @ rest)"
      by (simp add: strptime_def)
    with False show ?thesis by blast
  next
    case True
    show ?thesis
    proof (cases "py_int y < 1")
      case y: True
      with assms Cons m True have "e = ValueError (''year '' @ str_int (py_int y) @ '' is out of range'')"
        by (simp add: strptime_def Let_def)
      with y show ?thesis by blast
    next
      case False
      with assms Cons m True have "e = ValueError ''day is out of range for month''"
        by (simp add: strptime_def Let_def split: if_splits)
      then show ?thesis by simp
    qed
  qed
qed

lemma strptime_example_day0:
  "strptime ''00/11/2017'' = Inl (ValueError (spec_date_format_message ''00/11/2017''))"
  by code_simp

lemma strptime_example_dashes:
  "strptime ''03-11-2017'' = Inl (ValueError (spec_date_format_message ''03-11-2017''))"
  by code_simp

lemma strptime_example_trailing:
  "strptime ''03/11/2017x'' = Inl (ValueError ''unconverted data remains: x'')"
  by code_simp

lemma upper_YQ: "list_ex (\<lambda>c. c \<in> set (upper ''YQ'')) ''IQZ''"
  by code_simp

lemma strptime_example_2009: "strptime ''08/01/2009'' = Inr \<lparr>year = 2009, month = 1, day = 8\<rparr>"
  by code_simp

lemma age_example_2009: "generate_age_identifier \<lparr>year = 2009, month = 1, day = 8\<rparr> = ''59''"
  by code_simp

lemma example_ER:
  "generate_numberplate 0 ''ER'' ''08/01/2009''
     \<lparr>save_file_path = ''test.csv'',
        existing_generated_plates = Some {''ER59 AAA'', ''ER59 AAB''}\<rparr> w =
   (Inr ''ER59 AAC'',
    \<lparr>save_file_path = ''test.csv'',
       existing_generated_plates = Some {''ER59 AAC'', ''ER59 AAA'', ''ER59 AAB''}\<rparr>, w)"
proof -
  let ?g = "\<lparr>save_file_path = ''test.csv'',
              existing_generated_plates = Some {''ER59 AAA'', ''ER59 AAB''}\<rparr>"
  have u: "upper ''ER'' = ''ER''" by code_simp
  have l: "\<not> list_ex (\<lambda>c. c \<in> set (upper ''ER'')) ''IQZ''" unfolding u by simp
  have a: "existing_generated_plates ?g = Some {''ER59 AAA'', ''ER59 AAB''}" by simp
  have t: "generate_available_random_string 0 ?g ''ER59'' = Inr ''AAC''"
    using third_free [of "''test.csv''" "''ER59''"] by simp
  show ?thesis
    using numberplate_scan [OF strptime_example_2009 l _ a, of 0 w] t
    by (simp add: u age_example_2009)
qed

lemma example_er:
  "generate_numberplate 0 ''er'' ''08/01/2009''
     \<lparr>save_file_path = ''test.csv'',
        existing_generated_plates = Some {''ER59 AAA'', ''ER59 AAB''}\<rparr> w =
   (Inr ''ER59 AAC'',
    \<lparr>save_file_path = ''test.csv'',
       existing_generated_plates = Some {''ER59 AAC'', ''ER59 AAA'', ''ER59 AAB''}\<rparr>, w)"
proof -
  let ?g = "\<lparr>save_file_path = ''test.csv'',
              existing_generated_plates = Some {''ER59 AAA'', ''ER59 AAB''}\<rparr>"
  have u: "upper ''er'' = ''ER''" by code_simp
  have l: "\<not> list_ex (\<lambda>c. c \<in> set (upper ''er'')) ''IQZ''" unfolding u by simp
  have a: "existing_generated_plates ?g = Some {''ER59 AAA'', ''ER59 AAB''}" by simp
  have t: "generate_available_random_string 0 ?g ''ER59'' = Inr ''AAC''"
    using third_free [of "''test.csv''" "''ER59''"] by simp
  show ?thesis
    using numberplate_scan [OF strptime_example_2009 l _ a, of 0 w] t
    by (simp add: u age_example_2009)
qed

text \<open>
  The third case of the test with the tag in small letters: \<open>er\<close>, \<open>08/01/2009\<close>, two
  plates taken.
\<close>

theorem C2_numberplate_success_witness:
  "is_ascii ''er'' \<and>
   generate_numberplate 0 ''er'' ''08/01/2009''
     \<lparr>save_file_path = ''test.csv'',
        existing_generated_plates = Some {''ER59 AAA'', ''ER59 AAB''}\<rparr>
     \<lparr>files = Map.empty, stdout = []\<rparr> =
   (Inr ''ER59 AAC'',
    \<lparr>save_file_path = ''test.csv'',
       existing_generated_plates = Some {''ER59 AAC'', ''ER59 AAA'', ''ER59 AAB''}\<rparr>,
    \<lparr>files = Map.empty, stdout = []\<rparr>) \<and>
   ''ER59 AAC'' \<notin> {''ER59 AAA'', ''ER59 AAB''} \<and>
   upper ''er'' ! 0 = CHR ''E'' \<and> upper ''er'' ! 1 = CHR ''R''"
proof -
  let ?g = "\<lparr>save_file_path = ''test.csv'',
              existing_generated_plates = Some {''ER59 AAA'', ''ER59 AAB''}\<rparr>"
  let ?w = "\<lparr>files = Map.empty, stdout = []\<rparr>"
  have a: "existing_generated_plates ?g = Some {''ER59 AAA'', ''ER59 AAB''}" by simp
  have i: "is_ascii ''er''" by (simp add: is_ascii_def)
  note inst = C2_numberplate_success [OF example_er [of ?w] a i]
  from inst have free: "''ER59 AAC'' \<notin> {''ER59 AAA'', ''ER59 AAB''}" by blast
  from inst have pin: "\<forall>i<length ''er''.
            (\<forall>k<26. ''er'' ! i = ''abcdefghijklmnopqrstuvwxyz'' ! k \<longrightarrow>
                     upper ''er'' ! i = ''ABCDEFGHIJKLMNOPQRSTUVWXYZ'' ! k) \<and>
            (''er'' ! i \<notin> set ''abcdefghijklmnopqrstuvwxyz'' \<longrightarrow>
               upper ''er'' ! i = ''er'' ! i)"
    by (elim conjE)
  have e: "''er'' ! 0 = ''abcdefghijklmnopqrstuvwxyz'' ! 4" by simp
  have r: "''er'' ! 1 = ''abcdefghijklmnopqrstuvwxyz'' ! 17" by simp
  have "upper ''er'' ! 0 = ''ABCDEFGHIJKLMNOPQRSTUVWXYZ'' ! 4"
    using pin [rule_format, of 0, THEN conjunct1, rule_format, of 4] e by simp
  then have u0: "upper ''er'' ! 0 = CHR ''E''" by simp
  have "upper ''er'' ! 1 = ''ABCDEFGHIJKLMNOPQRSTUVWXYZ'' ! 17"
    using pin [rule_format, of 1, THEN conjunct1, rule_format, of 17] r by simp
  then have u1: "upper ''er'' ! 1 = CHR ''R''" by simp
  from i example_er [of ?w] free u0 u1 show ?thesis by (intro conjI)
qed

text \<open>
  Claim C6. A call that raises leaves the object and the world as they were; and no call
  changes the world, so the files are never touched.
\<close>

theorem C6_error_leaves_state:
  assumes "generate_numberplate start_index dvla_memory_tag date_created_str self w =
             (Inl e, self', w')"
  shows "self' = self \<and> w' = w \<and>
         snd (snd (generate_numberplate start_index2 dvla_memory_tag2 date_created_str2 self2 w2)) = w2"
  using numberplate_error_state [OF assms] numberplate_world by blast

text \<open>
  A date error, a tag error and the exhaustion error.
\<close>

theorem C6_error_leaves_state_witness:
  "generate_numberplate 0 ''AB'' ''00/11/2017''
     \<lparr>save_file_path = ''test.csv'', existing_generated_plates = Some {''AB67 AAA''}\<rparr>
     \<lparr>files = Map.empty, stdout = []\<rparr> =
   (Inl (ValueError (spec_date_format_message ''00/11/2017'')),
    \<lparr>save_file_path = ''test.csv'', existing_generated_plates = Some {''AB67 AAA''}\<rparr>,
    \<lparr>files = Map.empty, stdout = []\<rparr>) \<and>
   generate_numberplate 0 ''YQ'' ''03/11/2017''
     \<lparr>save_file_path = ''test.csv'', existing_generated_plates = Some {''AB67 AAA''}\<rparr>
     \<lparr>files = Map.empty, stdout = []\<rparr> =
   (Inl (ValueError ''I, Q, Z not allowed in UK number plates''),
    \<lparr>save_file_path = ''test.csv'', existing_generated_plates = Some {''AB67 AAA''}\<rparr>,
    \<lparr>files = Map.empty, stdout = []\<rparr>) \<and>
   generate_numberplate 0 ''AB'' ''03/11/2017''
     \<lparr>save_file_path = ''test.csv'',
        existing_generated_plates = Some ((@) ''AB67 '' ` set all_possible_random_strings)\<rparr>
     \<lparr>files = Map.empty, stdout = []\<rparr> =
   (Inl (ValueError ''No more unique strings available''),
    \<lparr>save_file_path = ''test.csv'',
       existing_generated_plates = Some ((@) ''AB67 '' ` set all_possible_random_strings)\<rparr>,
    \<lparr>files = Map.empty, stdout = []\<rparr>)"
proof -
  let ?g = "\<lparr>save_file_path = ''test.csv'', existing_generated_plates = Some {''AB67 AAA''}\<rparr>"
  let ?full = "(@) ''AB67 '' ` set all_possible_random_strings"
  let ?h = "\<lparr>save_file_path = ''test.csv'', existing_generated_plates = Some ?full\<rparr>"
  let ?w = "\<lparr>files = Map.empty, stdout = []\<rparr>"
  have state: "generate_numberplate s tag ds self ?w = (Inl e, self, ?w)"
    if f: "fst (generate_numberplate s tag ds self ?w) = Inl e" for s tag ds self e
  proof -
    obtain self' w' where r: "generate_numberplate s tag ds self ?w = (Inl e, self', w')"
      using f by (metis prod.collapse)
    from C6_error_leaves_state [OF r] r show ?thesis by simp
  qed
  have "fst (generate_numberplate 0 ''AB'' ''00/11/2017'' ?g ?w) =
          Inl (ValueError (spec_date_format_message ''00/11/2017''))"
    by (simp add: numberplate_date_error [OF strptime_example_day0])
  note one = state [OF this]
  have "fst (generate_numberplate 0 ''YQ'' ''03/11/2017'' ?g ?w) =
          Inl (ValueError ''I, Q, Z not allowed in UK number plates'')"
    by (simp add: numberplate_letter_error [OF strptime_example_2017 upper_YQ])
  note two = state [OF this]
  have u: "upper ''AB'' = ''AB''" by code_simp
  have l: "\<not> list_ex (\<lambda>c. c \<in> set (upper ''AB'')) ''IQZ''" unfolding u by simp
  have a: "existing_generated_plates ?h = Some ?full" by simp
  have "\<forall>c \<in> set all_possible_random_strings. ''AB67'' @ '' '' @ c \<in> ?full" by simp
  from all_taken_error [OF a this, of 0]
  have "fst (generate_numberplate 0 ''AB'' ''03/11/2017'' ?h ?w) =
          Inl (ValueError ''No more unique strings available'')"
    using numberplate_scan [OF strptime_example_2017 l _ a, of 0 ?w]
    by (simp add: u age_example_2017)
  note three = state [OF this]
  from one two three show ?thesis by blast
qed

subsection \<open>The parser's cases\<close>

lemma one_of_elem:
  "(a, r) \<in> set (one_of cs s) \<Longrightarrow> s = a @ r \<and> (\<exists>c \<in> set cs. a = [c])"
  by (auto simp: one_of_def split: list.splits if_splits)


lemma seq_elem:
  "(a, r) \<in> set (seq m1 m2 s) \<Longrightarrow>
   \<exists>a1 a2 r1. (a1, r1) \<in> set (m1 s) \<and> (a2, r) \<in> set (m2 r1) \<and> a = a1 @ a2"
  by (auto simp: seq_def)


lemma alt_elem: "(a, r) \<in> set (alt m1 m2 s) \<longleftrightarrow> (a, r) \<in> set (m1 s) \<or> (a, r) \<in> set (m2 s)"
  by (simp add: alt_def)


lemma seq_one_of_split:
  assumes "(a, r) \<in> set (seq (one_of cs) m s)" and "\<And>t b q. (b, q) \<in> set (m t) \<Longrightarrow> t = b @ q"
  shows "s = a @ r"
proof -
  from seq_elem [OF assms(1)] obtain a1 a2 r1 where
    "(a1, r1) \<in> set (one_of cs s)" "(a2, r) \<in> set (m r1)" "a = a1 @ a2" by blast
  with one_of_elem [of a1 r1 cs s] assms(2) [of a2 r r1] show ?thesis by simp
qed


lemma one_of_split: "(a, r) \<in> set (one_of cs s) \<Longrightarrow> s = a @ r"
  using one_of_elem by blast


lemma seq_two_split: "(a, r) \<in> set (seq (one_of cs1) (one_of cs2) s) \<Longrightarrow> s = a @ r"
  by (erule seq_one_of_split) (erule one_of_split)

lemma re_d_split: "(a, r) \<in> set (re_d s) \<Longrightarrow> s = a @ r"
  unfolding re_d_def alt_elem using seq_two_split one_of_split by blast


lemma re_m_split: "(a, r) \<in> set (re_m s) \<Longrightarrow> s = a @ r"
  unfolding re_m_def alt_elem using seq_two_split one_of_split by blast

lemma re_Y_digits:
  assumes "(y, r) \<in> set (re_Y s)"
  shows "s = y @ r \<and> (\<exists>a b c e. y = [a, b, c, e] \<and> a \<in> set digit_chars \<and>
           b \<in> set digit_chars \<and> c \<in> set digit_chars \<and> e \<in> set digit_chars)"
proof -
  from seq_elem [OF assms [unfolded re_Y_def]] obtain a1 y1 r1 where
    1: "(a1, r1) \<in> set (one_of digit_chars s)"
    and 2: "(y1, r) \<in> set (seq (one_of digit_chars) (seq (one_of digit_chars) (one_of digit_chars)) r1)"
    and y: "y = a1 @ y1" by blast
  from seq_elem [OF 2] obtain a2 y2 r2 where
    3: "(a2, r2) \<in> set (one_of digit_chars r1)"
    and 4: "(y2, r) \<in> set (seq (one_of digit_chars) (one_of digit_chars) r2)"
    and y1: "y1 = a2 @ y2" by blast
  from seq_elem [OF 4] obtain a3 a4 r3 where
    5: "(a3, r3) \<in> set (one_of digit_chars r2)"
    and 6: "(a4, r) \<in> set (one_of digit_chars r3)"
    and y2: "y2 = a3 @ a4" by blast
  from one_of_elem [OF 1] one_of_elem [OF 3] one_of_elem [OF 5] one_of_elem [OF 6] y y1 y2
  show ?thesis by auto
qed

lemma format_regex_elem:
  assumes "(d, m, y, rest) \<in> set (format_regex s)"
  shows "s = d @ ''/'' @ m @ ''/'' @ y @ rest \<and>
         (\<exists>a b c e. y = [a, b, c, e] \<and> a \<in> set digit_chars \<and>
            b \<in> set digit_chars \<and> c \<in> set digit_chars \<and> e \<in> set digit_chars)"
proof -
  from assms obtain r1 s1 r2 r3 s2 r4 where
    d: "(d, r1) \<in> set (re_d s)" and s1: "(s1, r2) \<in> set (one_of ''/'' r1)"
    and m: "(m, r3) \<in> set (re_m r2)" and s2: "(s2, r4) \<in> set (one_of ''/'' r3)"
    and y: "(y, rest) \<in> set (re_Y r4)"
    unfolding format_regex_def by auto
  from one_of_elem [OF s1] have "r1 = ''/'' @ r2" by auto
  moreover from one_of_elem [OF s2] have "r3 = ''/'' @ r4" by auto
  ultimately show ?thesis
    using re_d_split [OF d] re_m_split [OF m] re_Y_digits [OF y] by simp
qed

lemma digit_value:
  assumes "c \<in> set digit_chars"
  shows "0 \<le> int (of_char c) - 48 \<and> (int (of_char c) - 48 = 0 \<longleftrightarrow> c = CHR ''0'') \<and>
         c \<noteq> CHR '' ''"
  using assms by (auto simp: digit_chars_def)

lemma four_digits_zero:
  fixes va vb vc ve :: int
  assumes "0 \<le> va" "0 \<le> vb" "0 \<le> vc" "0 \<le> ve"
  shows "0 \<le> 1000 * va + 100 * vb + 10 * vc + ve \<and>
         (1000 * va + 100 * vb + 10 * vc + ve < 1 \<longleftrightarrow> va = 0 \<and> vb = 0 \<and> vc = 0 \<and> ve = 0)"
  using assms by linarith

lemma py_int_year:
  assumes "a \<in> set digit_chars" "b \<in> set digit_chars" "c \<in> set digit_chars"
    "e \<in> set digit_chars"
  shows "0 \<le> py_int [a, b, c, e] \<and> (py_int [a, b, c, e] < 1 \<longleftrightarrow> [a, b, c, e] = ''0000'')"
proof -
  define va where "va = int (of_char a) - 48"
  define vb where "vb = int (of_char b) - 48"
  define vc where "vc = int (of_char c) - 48"
  define ve where "ve = int (of_char e) - 48"
  note da = digit_value [OF assms(1), folded va_def] and db = digit_value [OF assms(2), folded vb_def]
    and dc = digit_value [OF assms(3), folded vc_def] and de = digit_value [OF assms(4), folded ve_def]
  have sp: "a \<noteq> CHR '' ''" using da by simp
  have p: "py_int [a, b, c, e] = 1000 * va + 100 * vb + 10 * vc + ve"
    using sp by (simp add: py_int_def va_def vb_def vc_def ve_def)
  have n: "0 \<le> va" "0 \<le> vb" "0 \<le> vc" "0 \<le> ve" using da db dc de by simp_all
  have z: "(va = 0 \<and> vb = 0 \<and> vc = 0 \<and> ve = 0) \<longleftrightarrow> [a, b, c, e] = ''0000''"
    using da db dc de by simp
  from four_digits_zero [OF n] show ?thesis unfolding p z [symmetric] .
qed

lemma strptime_cases:
  assumes f: "format_regex s = (d, m, y, rest) # ms"
  shows "s = d @ ''/'' @ m @ ''/'' @ y @ rest \<and>
    (rest \<noteq> [] \<longrightarrow> strptime s = Inl (ValueError (''unconverted data remains: '' @ rest))) \<and>
    (rest = [] \<and> y = ''0000'' \<longrightarrow> strptime s = Inl (ValueError ''year 0 is out of range'')) \<and>
    (rest = [] \<and> y \<noteq> ''0000'' \<and> days_in_month (py_int y) (py_int m) < py_int d \<longrightarrow>
       strptime s = Inl (ValueError ''day is out of range for month'')) \<and>
    (rest = [] \<and> y \<noteq> ''0000'' \<and> py_int d \<le> days_in_month (py_int y) (py_int m) \<longrightarrow>
       strptime s = Inr \<lparr>year = py_int y, month = py_int m, day = py_int d\<rparr>)"
proof -
  have "(d, m, y, rest) \<in> set (format_regex s)" unfolding f by simp
  from format_regex_elem [OF this] obtain a b c e where
    split: "s = d @ ''/'' @ m @ ''/'' @ y @ rest" and y: "y = [a, b, c, e]"
    and dig: "a \<in> set digit_chars" "b \<in> set digit_chars" "c \<in> set digit_chars"
      "e \<in> set digit_chars" by blast
  note yr = py_int_year [OF dig, folded y]
  have zero: "py_int ''0000'' = 0" by (simp add: py_int_def)
  have s0: "str_int 0 = ''0''" by code_simp
  have c2: "rest \<noteq> [] \<longrightarrow> strptime s = Inl (ValueError (''unconverted data remains: '' @ rest))"
    by (simp add: strptime_def f)
  have c3: "rest = [] \<and> y = ''0000'' \<longrightarrow> strptime s = Inl (ValueError ''year 0 is out of range'')"
    using zero s0 by (simp add: strptime_def f Let_def)
  have c4: "rest = [] \<and> y \<noteq> ''0000'' \<and> days_in_month (py_int y) (py_int m) < py_int d \<longrightarrow>
       strptime s = Inl (ValueError ''day is out of range for month'')"
    using yr by (simp add: strptime_def f Let_def)
  have c5: "rest = [] \<and> y \<noteq> ''0000'' \<and> py_int d \<le> days_in_month (py_int y) (py_int m) \<longrightarrow>
       strptime s = Inr \<lparr>year = py_int y, month = py_int m, day = py_int d\<rparr>"
    using yr by (simp add: strptime_def f Let_def)
  from split c2 c3 c4 c5 show ?thesis by (intro conjI)
qed

lemma strptime_example_february: "strptime ''31/02/2017'' = Inl (ValueError ''day is out of range for month'')"
  by code_simp

lemma strptime_example_year0: "strptime ''03/04/0000'' = Inl (ValueError ''year 0 is out of range'')"
  by code_simp

lemma format_regex_example_trailing:
  "format_regex ''03/11/2017x'' = [(''03'', ''11'', ''2017'', ''x'')]"
  by code_simp

text \<open>
  Claim C3, amended. The checks run in a fixed order. First the date is parsed, and an
  error of the parser is raised whatever the tag is. When the pattern does not match at the
  start of the string the message is \<open>time data ... does not match format '%d/%m/%Y'\<close>,
  carrying the \<open>repr\<close> of the input (the input itself between single quotes when all its
  characters are plain). When it matches, the string is day, \<open>/\<close>, month, \<open>/\<close>, year and
  the text left: the message is \<open>unconverted data remains:\<close> with that text when some is
  left, \<open>year 0 is out of range\<close> when none is left and the year is \<open>0000\<close>,
  \<open>day is out of range for month\<close> when the month has no such day, and otherwise the date
  is returned. Then, for an ASCII tag, the upper-cased tag is checked for I, Q and Z, then
  its length. The tag \<open>YQ\<close> gives the letter message for every date that parses; the two
  malformed dates of the tests give the format message.
\<close>

theorem C3_validation_order:
   "(\<forall>e. strptime date_created_str = Inl e \<longrightarrow>
       generate_numberplate start_index dvla_memory_tag date_created_str self w = (Inl e, self, w) \<and>
       (e = ValueError (''time data '' @ repr date_created_str @ '' does not match format '' @
                        format_repr) \<or>
        (\<exists>rest. rest \<noteq> [] \<and> e = ValueError (''unconverted data remains: '' @ rest)) \<or>
        (\<exists>y<1. e = ValueError (''year '' @ str_int y @ '' is out of range'')) \<or>
        e = ValueError ''day is out of range for month'')) \<and>
    (format_regex date_created_str = [] \<longrightarrow>
       strptime date_created_str =
         Inl (ValueError (''time data '' @ repr date_created_str @ '' does not match format '' @
                          format_repr))) \<and>
    (list_all plain_char date_created_str \<longrightarrow>
       ''time data '' @ repr date_created_str @ '' does not match format '' @ format_repr =
         spec_date_format_message date_created_str) \<and>
    (\<forall>d m y rest ms. format_regex date_created_str = (d, m, y, rest) # ms \<longrightarrow>
       date_created_str = d @ ''/'' @ m @ ''/'' @ y @ rest \<and>
       (rest \<noteq> [] \<longrightarrow>
          strptime date_created_str = Inl (ValueError (''unconverted data remains: '' @ rest))) \<and>
       (rest = [] \<and> y = ''0000'' \<longrightarrow>
          strptime date_created_str = Inl (ValueError ''year 0 is out of range'')) \<and>
       (rest = [] \<and> y \<noteq> ''0000'' \<and> days_in_month (py_int y) (py_int m) < py_int d \<longrightarrow>
          strptime date_created_str = Inl (ValueError ''day is out of range for month'')) \<and>
       (rest = [] \<and> y \<noteq> ''0000'' \<and> py_int d \<le> days_in_month (py_int y) (py_int m) \<longrightarrow>
          strptime date_created_str =
            Inr \<lparr>year = py_int y, month = py_int m, day = py_int d\<rparr>)) \<and>
    (is_ascii dvla_memory_tag \<longrightarrow>
       (\<forall>date. strptime date_created_str = Inr date \<and>
               (\<exists>c \<in> set ''IQZ''. c \<in> set (upper dvla_memory_tag)) \<longrightarrow>
          generate_numberplate start_index dvla_memory_tag date_created_str self w =
            (Inl (ValueError ''I, Q, Z not allowed in UK number plates''), self, w)) \<and>
       (\<forall>date. strptime date_created_str = Inr date \<and>
               \<not> (\<exists>c \<in> set ''IQZ''. c \<in> set (upper dvla_memory_tag)) \<and>
               length (upper dvla_memory_tag) \<noteq> 2 \<longrightarrow>
          generate_numberplate start_index dvla_memory_tag date_created_str self w =
            (Inl (ValueError ''DVLA memory tag must be 2 characters in length''), self, w))) \<and>
    (\<forall>date. strptime date_created_str = Inr date \<longrightarrow>
       generate_numberplate start_index ''YQ'' date_created_str self w =
         (Inl (ValueError ''I, Q, Z not allowed in UK number plates''), self, w)) \<and>
    strptime ''00/11/2017'' = Inl (ValueError (spec_date_format_message ''00/11/2017'')) \<and>
    strptime ''03-11-2017'' = Inl (ValueError (spec_date_format_message ''03-11-2017'')) \<and>
    strptime ''03/11/2017x'' = Inl (ValueError ''unconverted data remains: x'') \<and>
    strptime ''31/02/2017'' = Inl (ValueError ''day is out of range for month'') \<and>
    strptime ''03/04/0000'' = Inl (ValueError ''year 0 is out of range'')"
proof -
  have ex: "list_ex (\<lambda>c. c \<in> set t) ''IQZ'' \<longleftrightarrow> (\<exists>c \<in> set ''IQZ''. c \<in> set t)" for t :: string
    by (simp add: list_ex_iff)
  have one: "generate_numberplate start_index dvla_memory_tag date_created_str self w =
               (Inl e, self, w) \<and>
       (e = ValueError (''time data '' @ repr date_created_str @ '' does not match format '' @
                        format_repr) \<or>
        (\<exists>rest. rest \<noteq> [] \<and> e = ValueError (''unconverted data remains: '' @ rest)) \<or>
        (\<exists>y<1. e = ValueError (''year '' @ str_int y @ '' is out of range'')) \<or>
        e = ValueError ''day is out of range for month'')"
    if "strptime date_created_str = Inl e" for e
    using numberplate_date_error [OF that] strptime_errors [OF that] by blast
  have two: "generate_numberplate start_index dvla_memory_tag date_created_str self w =
         (Inl (ValueError ''I, Q, Z not allowed in UK number plates''), self, w)"
    if "strptime date_created_str = Inr date"
      "\<exists>c \<in> set ''IQZ''. c \<in> set (upper dvla_memory_tag)" for date
    using numberplate_letter_error [OF that(1)] that(2) unfolding ex by blast
  have three: "generate_numberplate start_index dvla_memory_tag date_created_str self w =
         (Inl (ValueError ''DVLA memory tag must be 2 characters in length''), self, w)"
    if "strptime date_created_str = Inr date"
      "\<not> (\<exists>c \<in> set ''IQZ''. c \<in> set (upper dvla_memory_tag))"
      "length (upper dvla_memory_tag) \<noteq> 2" for date
    using numberplate_length_error [OF that(1) _ that(3)] that(2) unfolding ex by blast
  have four: "generate_numberplate start_index ''YQ'' date_created_str self w =
         (Inl (ValueError ''I, Q, Z not allowed in UK number plates''), self, w)"
    if "strptime date_created_str = Inr date" for date
    using numberplate_letter_error [OF that upper_YQ] .
  have c1: "\<forall>e. strptime date_created_str = Inl e \<longrightarrow>
       generate_numberplate start_index dvla_memory_tag date_created_str self w = (Inl e, self, w) \<and>
       (e = ValueError (''time data '' @ repr date_created_str @ '' does not match format '' @
                        format_repr) \<or>
        (\<exists>rest. rest \<noteq> [] \<and> e = ValueError (''unconverted data remains: '' @ rest)) \<or>
        (\<exists>y<1. e = ValueError (''year '' @ str_int y @ '' is out of range'')) \<or>
        e = ValueError ''day is out of range for month'')"
    using one by (intro allI impI)
  have c2: "format_regex date_created_str = [] \<longrightarrow>
       strptime date_created_str =
         Inl (ValueError (''time data '' @ repr date_created_str @ '' does not match format '' @
                          format_repr))"
    using strptime_no_match [of date_created_str] by (rule impI)
  have c3: "list_all plain_char date_created_str \<longrightarrow>
       ''time data '' @ repr date_created_str @ '' does not match format '' @ format_repr =
         spec_date_format_message date_created_str"
    using format_message_plain [of date_created_str] by (rule impI)
  have c4: "\<forall>d m y rest ms. format_regex date_created_str = (d, m, y, rest) # ms \<longrightarrow>
       date_created_str = d @ ''/'' @ m @ ''/'' @ y @ rest \<and>
       (rest \<noteq> [] \<longrightarrow>
          strptime date_created_str = Inl (ValueError (''unconverted data remains: '' @ rest))) \<and>
       (rest = [] \<and> y = ''0000'' \<longrightarrow>
          strptime date_created_str = Inl (ValueError ''year 0 is out of range'')) \<and>
       (rest = [] \<and> y \<noteq> ''0000'' \<and> days_in_month (py_int y) (py_int m) < py_int d \<longrightarrow>
          strptime date_created_str = Inl (ValueError ''day is out of range for month'')) \<and>
       (rest = [] \<and> y \<noteq> ''0000'' \<and> py_int d \<le> days_in_month (py_int y) (py_int m) \<longrightarrow>
          strptime date_created_str =
            Inr \<lparr>year = py_int y, month = py_int m, day = py_int d\<rparr>)"
    using strptime_cases [of date_created_str] by (intro allI impI)
  have c5a: "\<forall>date. strptime date_created_str = Inr date \<and>
               (\<exists>c \<in> set ''IQZ''. c \<in> set (upper dvla_memory_tag)) \<longrightarrow>
          generate_numberplate start_index dvla_memory_tag date_created_str self w =
            (Inl (ValueError ''I, Q, Z not allowed in UK number plates''), self, w)"
    using two by (intro allI impI) (erule conjE)
  have c5b: "\<forall>date. strptime date_created_str = Inr date \<and>
               \<not> (\<exists>c \<in> set ''IQZ''. c \<in> set (upper dvla_memory_tag)) \<and>
               length (upper dvla_memory_tag) \<noteq> 2 \<longrightarrow>
          generate_numberplate start_index dvla_memory_tag date_created_str self w =
            (Inl (ValueError ''DVLA memory tag must be 2 characters in length''), self, w)"
    using three by (intro allI impI) (elim conjE)
  from c5a c5b have c5: "is_ascii dvla_memory_tag \<longrightarrow>
       (\<forall>date. strptime date_created_str = Inr date \<and>
               (\<exists>c \<in> set ''IQZ''. c \<in> set (upper dvla_memory_tag)) \<longrightarrow>
          generate_numberplate start_index dvla_memory_tag date_created_str self w =
            (Inl (ValueError ''I, Q, Z not allowed in UK number plates''), self, w)) \<and>
       (\<forall>date. strptime date_created_str = Inr date \<and>
               \<not> (\<exists>c \<in> set ''IQZ''. c \<in> set (upper dvla_memory_tag)) \<and>
               length (upper dvla_memory_tag) \<noteq> 2 \<longrightarrow>
          generate_numberplate start_index dvla_memory_tag date_created_str self w =
            (Inl (ValueError ''DVLA memory tag must be 2 characters in length''), self, w))"
    by (intro impI conjI)
  have c6: "\<forall>date. strptime date_created_str = Inr date \<longrightarrow>
       generate_numberplate start_index ''YQ'' date_created_str self w =
         (Inl (ValueError ''I, Q, Z not allowed in UK number plates''), self, w)"
    using four by (intro allI impI)
  from c1 c2 c3 c4 c5 c6 strptime_example_day0 strptime_example_dashes strptime_example_trailing
    strptime_example_february strptime_example_year0
  show ?thesis by (intro conjI)
qed

text \<open>
  The tag \<open>YQ\<close> with a date that does not parse and with one that does, a tag of three
  letters, and a date with text left after the match.
\<close>

theorem C3_validation_order_witness:
  "is_ascii ''YQ'' \<and>
   generate_numberplate 0 ''YQ'' ''00/11/2017''
     \<lparr>save_file_path = ''test.csv'', existing_generated_plates = Some {}\<rparr>
     \<lparr>files = Map.empty, stdout = []\<rparr> =
   (Inl (ValueError (spec_date_format_message ''00/11/2017'')),
    \<lparr>save_file_path = ''test.csv'', existing_generated_plates = Some {}\<rparr>,
    \<lparr>files = Map.empty, stdout = []\<rparr>) \<and>
   generate_numberplate 0 ''YQ'' ''03/11/2017''
     \<lparr>save_file_path = ''test.csv'', existing_generated_plates = Some {}\<rparr>
     \<lparr>files = Map.empty, stdout = []\<rparr> =
   (Inl (ValueError ''I, Q, Z not allowed in UK number plates''),
    \<lparr>save_file_path = ''test.csv'', existing_generated_plates = Some {}\<rparr>,
    \<lparr>files = Map.empty, stdout = []\<rparr>) \<and>
   generate_numberplate 0 ''ABC'' ''03/11/2017''
     \<lparr>save_file_path = ''test.csv'', existing_generated_plates = Some {}\<rparr>
     \<lparr>files = Map.empty, stdout = []\<rparr> =
   (Inl (ValueError ''DVLA memory tag must be 2 characters in length''),
    \<lparr>save_file_path = ''test.csv'', existing_generated_plates = Some {}\<rparr>,
    \<lparr>files = Map.empty, stdout = []\<rparr>) \<and>
   format_regex ''03/11/2017x'' = [(''03'', ''11'', ''2017'', ''x'')] \<and>
   strptime ''03/11/2017x'' = Inl (ValueError (''unconverted data remains: '' @ ''x''))"
proof -
  have i: "is_ascii ''YQ''" by (simp add: is_ascii_def)
  have j: "is_ascii ''ABC''" by (simp add: is_ascii_def)
  let ?g = "\<lparr>save_file_path = ''test.csv'', existing_generated_plates = Some {}\<rparr>"
  let ?w = "\<lparr>files = Map.empty, stdout = []\<rparr>"
  note first = C3_validation_order [of "''00/11/2017''" 0 "''YQ''" ?g ?w, THEN conjunct1]
  note sixth = C3_validation_order [of "''03/11/2017''" 0 "''YQ''" ?g ?w, THEN conjunct2,
      THEN conjunct2, THEN conjunct2, THEN conjunct2, THEN conjunct2, THEN conjunct1]
  note fifth = C3_validation_order [of "''03/11/2017''" 0 "''ABC''" ?g ?w, THEN conjunct2,
      THEN conjunct2, THEN conjunct2, THEN conjunct2, THEN conjunct1, rule_format, OF j,
      THEN conjunct2]
  note fourth = C3_validation_order [of "''03/11/2017x''" 0 "''YQ''" ?g ?w, THEN conjunct2,
      THEN conjunct2, THEN conjunct2, THEN conjunct1, rule_format,
      OF format_regex_example_trailing, THEN conjunct2, THEN conjunct1]
  have a: "generate_numberplate 0 ''YQ'' ''00/11/2017'' ?g ?w =
             (Inl (ValueError (spec_date_format_message ''00/11/2017'')), ?g, ?w)"
    using first strptime_example_day0 by blast
  have b: "generate_numberplate 0 ''YQ'' ''03/11/2017'' ?g ?w =
             (Inl (ValueError ''I, Q, Z not allowed in UK number plates''), ?g, ?w)"
    using sixth strptime_example_2017 by blast
  have u: "upper ''ABC'' = ''ABC''" by code_simp
  have n: "\<not> (\<exists>c \<in> set ''IQZ''. c \<in> set (upper ''ABC''))" unfolding u by simp
  have l: "length (upper ''ABC'') \<noteq> 2" unfolding u by simp
  have c: "generate_numberplate 0 ''ABC'' ''03/11/2017'' ?g ?w =
             (Inl (ValueError ''DVLA memory tag must be 2 characters in length''), ?g, ?w)"
    using fifth strptime_example_2017 n l by blast
  have d: "strptime ''03/11/2017x'' = Inl (ValueError (''unconverted data remains: '' @ ''x''))"
    using fourth by simp
  from i a b c format_regex_example_trailing d show ?thesis by (intro conjI)
qed

text \<open>
  Claim C3 as stated fails: the date \<open>03/11/2017x\<close> does not parse, and the message is not
  the format message.
\<close>

theorem C3_trailing_text_counterexample:
  "generate_numberplate 0 ''AB'' ''03/11/2017x''
     \<lparr>save_file_path = ''test.csv'', existing_generated_plates = Some {}\<rparr>
     \<lparr>files = Map.empty, stdout = []\<rparr> =
   (Inl (ValueError ''unconverted data remains: x''),
    \<lparr>save_file_path = ''test.csv'', existing_generated_plates = Some {}\<rparr>,
    \<lparr>files = Map.empty, stdout = []\<rparr>) \<and>
   ''unconverted data remains: x'' \<noteq> spec_date_format_message ''03/11/2017x'' \<and>
   strptime ''03/11/2017x'' \<noteq> Inl (ValueError (spec_date_format_message ''03/11/2017x''))"
proof -
  have "''unconverted data remains: x'' \<noteq> spec_date_format_message ''03/11/2017x''"
    by (simp add: spec_date_format_message_def)
  then show ?thesis
    using numberplate_date_error [OF strptime_example_trailing]
    by (simp add: strptime_example_trailing)
qed

subsection \<open>Tags that are not letters\<close>

lemma upper_45: "upper ''45'' = ''45''"
  by code_simp

lemma upper_ab: "upper ''ab'' = ''AB''"
  by code_simp

lemma example_45:
  "generate_numberplate 0 ''45'' ''03/11/2017''
     \<lparr>save_file_path = ''test.csv'', existing_generated_plates = Some {}\<rparr> w =
   (Inr ''4567 AAA'',
    \<lparr>save_file_path = ''test.csv'', existing_generated_plates = Some {''4567 AAA''}\<rparr>, w)"
proof -
  have l: "\<not> list_ex (\<lambda>c. c \<in> set (upper ''45'')) ''IQZ''" unfolding upper_45 by simp
  show ?thesis
    using numberplate_empty_set [OF strptime_example_2017 l, of 0 "''test.csv''" w]
    by (simp add: upper_45 age_example_2017 nth_AAA)
qed

lemma example_ab:
  "generate_numberplate 0 ''ab'' ''03/11/2017''
     \<lparr>save_file_path = ''test.csv'', existing_generated_plates = Some {}\<rparr> w =
   (Inr ''AB67 AAA'',
    \<lparr>save_file_path = ''test.csv'', existing_generated_plates = Some {''AB67 AAA''}\<rparr>, w)"
proof -
  have l: "\<not> list_ex (\<lambda>c. c \<in> set (upper ''ab'')) ''IQZ''" unfolding upper_ab by simp
  show ?thesis
    using numberplate_empty_set [OF strptime_example_2017 l, of 0 "''test.csv''" w]
    by (simp add: upper_ab age_example_2017 nth_AAA)
qed

lemma example_45_exhausted:
  "generate_numberplate 0 ''45'' ''03/11/2017''
     \<lparr>save_file_path = ''test.csv'',
        existing_generated_plates = Some ((@) ''4567 '' ` set all_possible_random_strings)\<rparr> w =
   (Inl (ValueError ''No more unique strings available''),
    \<lparr>save_file_path = ''test.csv'',
       existing_generated_plates = Some ((@) ''4567 '' ` set all_possible_random_strings)\<rparr>, w)"
proof -
  let ?full = "(@) ''4567 '' ` set all_possible_random_strings"
  let ?h = "\<lparr>save_file_path = ''test.csv'', existing_generated_plates = Some ?full\<rparr>"
  have l: "\<not> list_ex (\<lambda>c. c \<in> set (upper ''45'')) ''IQZ''" unfolding upper_45 by simp
  have a: "existing_generated_plates ?h = Some ?full" by simp
  have "\<forall>c \<in> set all_possible_random_strings. ''4567'' @ '' '' @ c \<in> ?full" by simp
  from all_taken_error [OF a this, of 0]
  show ?thesis
    using numberplate_scan [OF strptime_example_2017 l _ a, of 0 w]
    by (simp add: upper_45 age_example_2017)
qed

text \<open>
  Claim C10, amended. For an ASCII tag of two characters whose upper case has none of I, Q
  and Z, a date that parses, and with the attribute set: no tag error is raised; when a
  suffix is free for the prefix the call returns a plate that starts with the upper-cased
  tag and the age identifier; when none is free it raises the exhaustion error. The tag
  \<open>45\<close> is accepted.
\<close>

theorem C10_no_letter_check:
  assumes ascii: "is_ascii dvla_memory_tag"
    and len: "length dvla_memory_tag = 2"
    and letters: "\<not> (\<exists>c \<in> set ''IQZ''. c \<in> set (upper dvla_memory_tag))"
    and date: "strptime date_created_str = Inr date"
    and attr: "existing_generated_plates self = Some plates"
  shows
   "fst (generate_numberplate start_index dvla_memory_tag date_created_str self w) \<noteq>
      Inl (ValueError ''I, Q, Z not allowed in UK number plates'') \<and>
    fst (generate_numberplate start_index dvla_memory_tag date_created_str self w) \<noteq>
      Inl (ValueError ''DVLA memory tag must be 2 characters in length'') \<and>
    ((\<exists>c \<in> set all_possible_random_strings.
        upper dvla_memory_tag @ generate_age_identifier date @ '' '' @ c \<notin> plates) \<longrightarrow>
     (\<exists>suffix \<in> set all_possible_random_strings.
        fst (generate_numberplate start_index dvla_memory_tag date_created_str self w) =
          Inr (upper dvla_memory_tag @ generate_age_identifier date @ '' '' @ suffix))) \<and>
    ((\<forall>c \<in> set all_possible_random_strings.
        upper dvla_memory_tag @ generate_age_identifier date @ '' '' @ c \<in> plates) \<longrightarrow>
     fst (generate_numberplate start_index dvla_memory_tag date_created_str self w) =
       Inl (ValueError ''No more unique strings available'')) \<and>
    fst (generate_numberplate 0 ''45'' ''03/11/2017''
           \<lparr>save_file_path = ''test.csv'', existing_generated_plates = Some {}\<rparr> w) =
      Inr ''4567 AAA''"
proof -
  let ?p = "upper dvla_memory_tag @ generate_age_identifier date"
  let ?gen = "generate_available_random_string start_index self ?p"
  let ?res = "fst (generate_numberplate start_index dvla_memory_tag date_created_str self w)"
  have l: "\<not> list_ex (\<lambda>c. c \<in> set (upper dvla_memory_tag)) ''IQZ''"
    using letters by (simp add: list_ex_iff)
  have n: "length (upper dvla_memory_tag) = 2" using len by (simp add: upper_def)
  note run = numberplate_scan [OF date l n attr, of start_index w]
  have res: "?res = (case ?gen of Inl e \<Rightarrow> Inl e | Inr r \<Rightarrow> Inr (?p @ '' '' @ r))"
    unfolding run by (simp split: sum.splits)
  have err: "e = ValueError ''No more unique strings available''" if "?gen = Inl e" for e
    using scan_range_error [OF attr that] .
  have c1: "?res \<noteq> Inl (ValueError ''I, Q, Z not allowed in UK number plates'')"
    unfolding res using err by (cases ?gen) auto
  have c2: "?res \<noteq> Inl (ValueError ''DVLA memory tag must be 2 characters in length'')"
    unfolding res using err by (cases ?gen) auto
  have c3: "(\<exists>c \<in> set all_possible_random_strings. ?p @ '' '' @ c \<notin> plates) \<longrightarrow>
            (\<exists>suffix \<in> set all_possible_random_strings. ?res = Inr (?p @ '' '' @ suffix))"
  proof
    assume "\<exists>c \<in> set all_possible_random_strings. ?p @ '' '' @ c \<notin> plates"
    then have "\<exists>c \<in> set all_possible_random_strings. ?p @ '' '' @ c \<notin> plates" by simp
    with scan_range_exhausted [OF attr, of start_index ?p]
    obtain r where r: "?gen = Inr r" by blast
    from scan_range_result [OF attr r] have "r \<in> set all_possible_random_strings"
      by (auto simp: length_all_possible_random_strings)
    moreover have "?res = Inr (?p @ '' '' @ r)" unfolding res using r by simp
    ultimately show "\<exists>suffix \<in> set all_possible_random_strings. ?res = Inr (?p @ '' '' @ suffix)"
      by blast
  qed
  have c4: "(\<forall>c \<in> set all_possible_random_strings. ?p @ '' '' @ c \<in> plates) \<longrightarrow>
            ?res = Inl (ValueError ''No more unique strings available'')"
  proof
    assume "\<forall>c \<in> set all_possible_random_strings. ?p @ '' '' @ c \<in> plates"
    then have "\<forall>c \<in> set all_possible_random_strings. ?p @ '' '' @ c \<in> plates" by simp
    from all_taken_error [OF attr this, of start_index]
    show "?res = Inl (ValueError ''No more unique strings available'')"
      unfolding res by simp
  qed
  have c5: "fst (generate_numberplate 0 ''45'' ''03/11/2017''
           \<lparr>save_file_path = ''test.csv'', existing_generated_plates = Some {}\<rparr> w) =
      Inr ''4567 AAA''"
    by (simp add: example_45)
  from c1 c2 c3 c4 c5 show ?thesis by simp
qed

text \<open>
  The tag \<open>45\<close> with every suffix taken.
\<close>

theorem C10_no_letter_check_witness:
  "is_ascii ''45'' \<and> length ''45'' = 2 \<and>
   strptime ''03/11/2017'' = Inr \<lparr>year = 2017, month = 11, day = 3\<rparr> \<and>
   fst (generate_numberplate 7 ''45'' ''03/11/2017''
          \<lparr>save_file_path = ''test.csv'',
             existing_generated_plates = Some ((@) ''4567 '' ` set all_possible_random_strings)\<rparr>
          \<lparr>files = Map.empty, stdout = []\<rparr>) =
     Inl (ValueError ''No more unique strings available'')"
proof -
  let ?full = "(@) ''4567 '' ` set all_possible_random_strings"
  let ?h = "\<lparr>save_file_path = ''test.csv'', existing_generated_plates = Some ?full\<rparr>"
  let ?w = "\<lparr>files = Map.empty, stdout = []\<rparr>"
  have i: "is_ascii ''45''" by (simp add: is_ascii_def)
  have n: "length ''45'' = 2" by simp
  have l: "\<not> (\<exists>c \<in> set ''IQZ''. c \<in> set (upper ''45''))" unfolding upper_45 by simp
  have a: "existing_generated_plates ?h = Some ?full" by simp
  have t: "\<forall>c \<in> set all_possible_random_strings.
             upper ''45'' @ generate_age_identifier \<lparr>year = 2017, month = 11, day = 3\<rparr> @ '' '' @ c
               \<in> ?full"
    by (simp add: upper_45 age_example_2017)
  note fourth = C10_no_letter_check [OF i n l strptime_example_2017 a, of 7 ?w,
      THEN conjunct2, THEN conjunct2, THEN conjunct2, THEN conjunct1]
  from fourth t have "fst (generate_numberplate 7 ''45'' ''03/11/2017'' ?h ?w) =
      Inl (ValueError ''No more unique strings available'')" by (rule mp)
  with i n strptime_example_2017 show ?thesis by (intro conjI)
qed

text \<open>
  Claim C10 as stated fails: with every suffix taken for \<open>4567\<close> the call mints no plate,
  and the plate minted for the tag \<open>ab\<close> starts with \<open>AB\<close>, not with the tag as given.
\<close>

theorem C10_exhausted_or_lowercase_counterexample:
  "fst (generate_numberplate 0 ''45'' ''03/11/2017''
          \<lparr>save_file_path = ''test.csv'',
             existing_generated_plates = Some ((@) ''4567 '' ` set all_possible_random_strings)\<rparr>
          \<lparr>files = Map.empty, stdout = []\<rparr>) =
     Inl (ValueError ''No more unique strings available'') \<and>
   fst (generate_numberplate 0 ''ab'' ''03/11/2017''
          \<lparr>save_file_path = ''test.csv'', existing_generated_plates = Some {}\<rparr>
          \<lparr>files = Map.empty, stdout = []\<rparr>) = Inr ''AB67 AAA'' \<and>
   take 2 ''AB67 AAA'' \<noteq> ''ab''"
proof -
  have "take 2 ''AB67 AAA'' \<noteq> ''ab''" by simp
  then show ?thesis by (simp only: example_45_exhausted example_ab fst_conv simp_thms)
qed

subsection \<open>Saving and loading\<close>

lemma write_rows_append: "write_rows ss rows = rows @ map (\<lambda>s. [s]) ss"
  by (induction ss arbitrary: rows) simp_all

lemma read_rows_append:
  "read_rows rows csv_rows = csv_rows @ map hd (filter (\<lambda>row. row \<noteq> []) rows)"
  by (induction rows arbitrary: csv_rows) simp_all

lemma read_rows_written: "read_rows (map (\<lambda>s. [s]) ss) [] = ss"
  by (simp add: read_rows_append filter_map comp_def)

lemma load_rows:
  "files v (save_file_path self) = Some (Rows rows) \<Longrightarrow>
   fst (load_from_csv self v) = Inr (set (map hd (filter (\<lambda>row. row \<noteq> []) rows)))"
  by (simp add: load_from_csv_def Let_def read_rows_append)

lemma save_result:
  assumes "existing_generated_plates self = Some plates"
    and "save_to_csv order self w = (Inr (), w')"
  shows "files w' (save_file_path self) = Some (Rows (map (\<lambda>s. [s]) order))"
  using assms
  by (auto simp: save_to_csv_def print_def write_rows_append split: if_splits)

lemma csv_extension_slice: "last_chars 4 path = ''.csv'' \<longleftrightarrow> spec_csv_extension path"
proof
  assume a: "last_chars 4 path = ''.csv''"
  have "path = take (length path - 4) path @ drop (length path - 4) path" by simp
  with a have "path = take (length path - 4) path @ ''.csv''" by (simp add: last_chars_def)
  then show "spec_csv_extension path" unfolding spec_csv_extension_def suffix_def by blast
next
  assume "spec_csv_extension path"
  then obtain zs where "path = zs @ ''.csv''" unfolding spec_csv_extension_def suffix_def by blast
  then show "last_chars 4 path = ''.csv''" by (simp add: last_chars_def)
qed

lemma init_loads:
  assumes "spec_csv_extension path" and "files w path = Some (Rows rows)"
  shows "fst (init path w) =
           Inr \<lparr>save_file_path = path,
                existing_generated_plates = Some (set (map hd (filter (\<lambda>row. row \<noteq> []) rows)))\<rparr>"
  using assms csv_extension_slice [of path]
  by (simp add: init_def isfile_def load_from_csv_def Let_def read_rows_append)

text \<open>
  Claim C7. With the attribute set, for every order in which the loop meets the elements
  of the set, a save that succeeds writes one row of one field for each plate, and loading
  from the same path, by \<open>load_from_csv\<close> or by constructing a new object, gives the set
  back. Loading any file gives the set of the first fields of its non-empty rows.
\<close>

theorem C7_save_load_roundtrip:
  assumes attr: "existing_generated_plates self = Some plates"
    and elems: "set order = plates"
    and once: "distinct order"
    and saved: "save_to_csv order self w = (Inr (), w')"
  shows "fst (load_from_csv self w') = Inr plates \<and>
         files w' (save_file_path self) = Some (Rows (map (\<lambda>s. [s]) order)) \<and>
         length order = card plates \<and>
         (spec_csv_extension (save_file_path self) \<longrightarrow>
            fst (init (save_file_path self) w') = Inr self) \<and>
         (\<forall>rows v. files v (save_file_path self) = Some (Rows rows) \<longrightarrow>
            fst (load_from_csv self v) =
              Inr (set (map hd (filter (\<lambda>row. row \<noteq> []) rows))))"
proof -
  note written = save_result [OF attr saved]
  have firsts: "map hd (filter (\<lambda>row. row \<noteq> []) (map (\<lambda>s. [s]) order)) = order"
    by (simp add: filter_map comp_def)
  have c1: "fst (load_from_csv self w') = Inr plates"
    using load_rows [OF written] elems by (simp only: firsts)
  have c3: "length order = card plates"
    using elems once distinct_card [of order] by simp
  have c4: "spec_csv_extension (save_file_path self) \<longrightarrow>
              fst (init (save_file_path self) w') = Inr self"
  proof
    assume "spec_csv_extension (save_file_path self)"
    from init_loads [OF this written] show "fst (init (save_file_path self) w') = Inr self"
      using elems attr by (simp only: firsts) simp
  qed
  have c5: "\<forall>rows v. files v (save_file_path self) = Some (Rows rows) \<longrightarrow>
            fst (load_from_csv self v) =
              Inr (set (map hd (filter (\<lambda>row. row \<noteq> []) rows)))"
    using load_rows by blast
  from c1 written c3 c4 c5 show ?thesis by (intro conjI)
qed

text \<open>
  The three plates of the tests, written in some order.
\<close>

theorem C7_save_load_roundtrip_witness:
  "fst (load_from_csv
         \<lparr>save_file_path = ''test.csv'',
            existing_generated_plates = Some {''YP10 UNK'', ''YP10 SHU'', ''YP10 EHW''}\<rparr>
         (snd (save_to_csv [''YP10 SHU'', ''YP10 EHW'', ''YP10 UNK'']
                 \<lparr>save_file_path = ''test.csv'',
                    existing_generated_plates = Some {''YP10 UNK'', ''YP10 SHU'', ''YP10 EHW''}\<rparr>
                 \<lparr>files = Map.empty, stdout = []\<rparr>))) =
   Inr {''YP10 UNK'', ''YP10 SHU'', ''YP10 EHW''}"
proof -
  let ?plates = "{''YP10 UNK'', ''YP10 SHU'', ''YP10 EHW''}"
  let ?g = "\<lparr>save_file_path = ''test.csv'', existing_generated_plates = Some ?plates\<rparr>"
  let ?order = "[''YP10 SHU'', ''YP10 EHW'', ''YP10 UNK'']"
  let ?w = "\<lparr>files = Map.empty, stdout = []\<rparr>"
  have attr: "existing_generated_plates ?g = Some ?plates" by simp
  have elems: "set ?order = ?plates" by auto
  have once: "distinct ?order" by simp
  have "fst (save_to_csv ?order ?g ?w) = Inr ()" by (simp add: save_to_csv_def)
  then have saved: "save_to_csv ?order ?g ?w = (Inr (), snd (save_to_csv ?order ?g ?w))"
    by (metis prod.collapse)
  from C7_save_load_roundtrip [OF attr elems once saved] show ?thesis by (rule conjunct1)
qed

subsection \<open>Construction\<close>

lemma init_rejects:
  "\<not> spec_csv_extension path \<Longrightarrow> init path w = (Inl (ValueError ''File must be a .csv file''), w)"
  using csv_extension_slice [of path] by (simp add: init_def)

lemma init_accepts:
  assumes "spec_csv_extension path"
  shows "fst (init path w) \<noteq> Inl (ValueError ''File must be a .csv file'')"
proof (cases "files w path")
  case None
  with assms csv_extension_slice [of path] show ?thesis by (simp add: init_def isfile_def)
next
  case (Some f)
  with assms csv_extension_slice [of path] show ?thesis
    by (cases f) (simp_all add: init_def isfile_def load_from_csv_def Let_def)
qed

lemma init_no_file:
  "spec_csv_extension path \<Longrightarrow> files w path = None \<Longrightarrow>
   init path w = (Inr \<lparr>save_file_path = path, existing_generated_plates = Some {}\<rparr>, w)"
  using csv_extension_slice [of path] by (simp add: init_def isfile_def)

lemma testcsv_extension: "\<not> spec_csv_extension ''testcsv''"
  using csv_extension_slice [of "''testcsv''"] by (simp add: last_chars_def)

text \<open>
  Claim C9. A path that does not end in \<open>.csv\<close> is rejected with
  \<open>File must be a .csv file\<close> in every world, and the world is unchanged; \<open>testcsv\<close> is
  such a path. A path that ends in \<open>.csv\<close> never gives this error, and when there is no
  file at the path the object starts with the empty set and the world is unchanged.
\<close>

theorem C9_extension_check:
  "(\<not> spec_csv_extension path \<longrightarrow>
      init path w = (Inl (ValueError ''File must be a .csv file''), w)) \<and>
   init ''testcsv'' w = (Inl (ValueError ''File must be a .csv file''), w) \<and>
   (spec_csv_extension path \<longrightarrow>
      fst (init path w) \<noteq> Inl (ValueError ''File must be a .csv file'') \<and>
      (files w path = None \<longrightarrow>
         init path w =
           (Inr \<lparr>save_file_path = path, existing_generated_plates = Some {}\<rparr>, w)))"
  using init_rejects [of path w] init_rejects [OF testcsv_extension, of w]
    init_accepts [of path w] init_no_file [of path w]
  by blast

text \<open>
  A rejected path, in a world where the file could not be opened, and an accepted path with
  no file.
\<close>

theorem C9_extension_check_witness:
  "init ''plates.txt'' \<lparr>files = [''plates.txt'' \<mapsto> Unreadable], stdout = []\<rparr> =
     (Inl (ValueError ''File must be a .csv file''),
      \<lparr>files = [''plates.txt'' \<mapsto> Unreadable], stdout = []\<rparr>) \<and>
   init ''test.csv'' \<lparr>files = Map.empty, stdout = []\<rparr> =
     (Inr \<lparr>save_file_path = ''test.csv'', existing_generated_plates = Some {}\<rparr>,
      \<lparr>files = Map.empty, stdout = []\<rparr>)"
proof -
  let ?v = "\<lparr>files = [''plates.txt'' \<mapsto> Unreadable], stdout = []\<rparr>"
  let ?w = "\<lparr>files = Map.empty, stdout = []\<rparr>"
  have no: "\<not> spec_csv_extension ''plates.txt''"
    using csv_extension_slice [of "''plates.txt''"] by (simp add: last_chars_def)
  have yes: "spec_csv_extension ''test.csv''"
    using csv_extension_slice [of "''test.csv''"] by (simp add: last_chars_def)
  have none: "files ?w ''test.csv'' = None" by simp
  from C9_extension_check [of "''plates.txt''" ?v, THEN conjunct1] no
  have a: "init ''plates.txt'' ?v = (Inl (ValueError ''File must be a .csv file''), ?v)" by (rule mp)
  from C9_extension_check [of "''test.csv''" ?w, THEN conjunct2, THEN conjunct2] yes none
  have b: "init ''test.csv'' ?w =
     (Inr \<lparr>save_file_path = ''test.csv'', existing_generated_plates = Some {}\<rparr>, ?w)" by blast
  from a b show ?thesis by (rule conjI)
qed

lemma unset_attribute_scan:
  assumes "existing_generated_plates self = None"
  shows "generate_available_random_string s self p = Inl no_attribute"
proof -
  have "[0..<12167] = 0 # [Suc 0..<12167]" by (rule upt_conv_Cons) simp
  then show ?thesis
    using assms
    by (simp add: generate_available_random_string_def length_all_possible_random_strings Let_def)
qed

lemma unset_attribute_numberplate:
  assumes "existing_generated_plates self = None"
    and "strptime ds = Inr date"
    and "\<not> list_ex (\<lambda>c. c \<in> set (upper tag)) ''IQZ''"
    and "length (upper tag) = 2"
  shows "generate_numberplate s tag ds self w = (Inl no_attribute, self, w)"
  using assms unset_attribute_scan [OF assms(1)]
  by (simp add: generate_numberplate_def Let_def)

lemma strptime_example_2010: "strptime ''01/04/2010'' = Inr \<lparr>year = 2010, month = 4, day = 1\<rparr>"
  by code_simp

lemma upper_YP: "upper ''YP'' = ''YP''"
  by code_simp

text \<open>
  Claim C8. When the file exists and cannot be opened, construction succeeds and prints a
  line, but the attribute is left unassigned: it is not the empty set, and the next call
  of \<open>generate_numberplate\<close> raises \<open>AttributeError\<close>.
\<close>

theorem C8_load_error_leaves_attribute_unset:
  assumes ext: "spec_csv_extension path"
    and unreadable: "files w path = Some Unreadable"
  shows "init path w =
           (Inr \<lparr>save_file_path = path, existing_generated_plates = None\<rparr>,
            print ''Failed to load existing generated plates due to {err}'' w) \<and>
         existing_generated_plates
           \<lparr>save_file_path = path, existing_generated_plates = None\<rparr> \<noteq> Some {} \<and>
         generate_numberplate start_index ''YP'' ''01/04/2010''
           \<lparr>save_file_path = path, existing_generated_plates = None\<rparr> w' =
           (Inl no_attribute, \<lparr>save_file_path = path, existing_generated_plates = None\<rparr>, w')"
proof -
  let ?g = "\<lparr>save_file_path = path, existing_generated_plates = None\<rparr>"
  have a: "init path w =
             (Inr ?g, print ''Failed to load existing generated plates due to {err}'' w)"
    using ext unreadable csv_extension_slice [of path]
    by (simp add: init_def isfile_def load_from_csv_def)
  have l: "\<not> list_ex (\<lambda>c. c \<in> set (upper ''YP'')) ''IQZ''" unfolding upper_YP by simp
  have n: "length (upper ''YP'') = 2" unfolding upper_YP by simp
  have b: "generate_numberplate start_index ''YP'' ''01/04/2010'' ?g w' = (Inl no_attribute, ?g, w')"
    by (rule unset_attribute_numberplate [OF _ strptime_example_2010 l n]) simp
  from a b show ?thesis by simp
qed

text \<open>
  The path \<open>plates.csv\<close>, unreadable.
\<close>

theorem C8_load_error_leaves_attribute_unset_witness:
  "init ''plates.csv'' \<lparr>files = [''plates.csv'' \<mapsto> Unreadable], stdout = []\<rparr> =
     (Inr \<lparr>save_file_path = ''plates.csv'', existing_generated_plates = None\<rparr>,
      \<lparr>files = [''plates.csv'' \<mapsto> Unreadable],
         stdout = [''Failed to load existing generated plates due to {err}'']\<rparr>)"
proof -
  let ?w = "\<lparr>files = [''plates.csv'' \<mapsto> Unreadable], stdout = []\<rparr>"
  have ext: "spec_csv_extension ''plates.csv''"
    using csv_extension_slice [of "''plates.csv''"] by (simp add: last_chars_def)
  have unreadable: "files ?w ''plates.csv'' = Some Unreadable" by simp
  from C8_load_error_leaves_attribute_unset [OF ext unreadable, THEN conjunct1]
  show ?thesis by (simp add: print_def)
qed

end
